theory Spec2Isabelle
  imports Complex_Main
begin

section \<open>Errors raised by the pipeline\<close>

text \<open>
  Every exception the modelled Python can raise is a value of \<open>error\<close>; a function that
  may raise returns \<open>error + 'a\<close> with \<open>Inl\<close> for the exception.  \<open>MaxRetriesExceeded\<close> is
  the plain \<open>Exception("Max retries exceeded ...")\<close> of the fetcher and \<open>HTTPError\<close> the
  exception of \<open>response.raise_for_status()\<close>.
\<close>

datatype error =
    ValueError
  | TypeError
  | AttributeError
  | KeyError
  | IndexError
  | OSError
  | JSONDecodeError
  | ValidationError
  | HTTPError
  | MaxRetriesExceeded
  | SnowflakeError

section \<open>Data model (models/general\_ledger\_account.py)\<close>

text \<open>
  Python \<open>float\<close> fields are only copied by the code under study, never computed with, so
  they are carried as \<open>real\<close> values.  \<open>Optional[T]\<close> is \<open>T option\<close>.  The account is a
  recursive type: \<open>sub_accounts\<close> is \<open>Optional[list[GeneralLedgerAccount]]\<close>, so it may be
  \<open>None\<close> (JSON \<open>null\<close>), the empty list (also the default when the key is absent) or a
  list of accounts.  Field names carry the prefix \<open>gla_\<close> because \<open>id\<close>, \<open>name\<close> and \<open>type\<close>
  are taken in HOL and are shared by several models.
\<close>

type_synonym py_float = real

datatype GeneralLedgerAccount = GeneralLedgerAccount
  (gla_id: int)
  (gla_account_number: "string option")
  (gla_name: string)
  (gla_description: "string option")
  (gla_type: string)
  (gla_sub_type: string)
  (gla_is_default_gl_account: bool)
  (gla_default_account_name: "string option")
  (gla_is_contra_account: bool)
  (gla_is_bank_account: bool)
  (gla_cash_flow_classification: "string option")
  (gla_exclude_from_cash_balances: bool)
  (gla_sub_accounts: "GeneralLedgerAccount list option")
  (gla_is_active: bool)
  (gla_parent_gl_account_id: "int option")

record GeneralLedgerAccountFlattened =
  glaf_id :: int
  glaf_account_number :: "string option"
  glaf_name :: string
  glaf_description :: "string option"
  glaf_type :: string
  glaf_sub_type :: string
  glaf_is_default_gl_account :: bool
  glaf_default_account_name :: "string option"
  glaf_is_contra_account :: bool
  glaf_is_bank_account :: bool
  glaf_cash_flow_classification :: "string option"
  glaf_exclude_from_cash_balances :: bool
  glaf_is_active :: bool
  glaf_parent_gl_account_id :: "int option"

section \<open>Account flattener (transform/transform\_general\_ledger\_accounts.py)\<close>

text \<open>
  \<open>GeneralLedgerAccountFlattened(**account.model_dump(exclude={"sub_accounts"}))\<close>: every
  field but \<open>sub_accounts\<close> is copied under the same name.
\<close>

definition flatten_account :: "GeneralLedgerAccount \<Rightarrow> GeneralLedgerAccountFlattened" where
  "flatten_account a =
     \<lparr> glaf_id = gla_id a,
       glaf_account_number = gla_account_number a,
       glaf_name = gla_name a,
       glaf_description = gla_description a,
       glaf_type = gla_type a,
       glaf_sub_type = gla_sub_type a,
       glaf_is_default_gl_account = gla_is_default_gl_account a,
       glaf_default_account_name = gla_default_account_name a,
       glaf_is_contra_account = gla_is_contra_account a,
       glaf_is_bank_account = gla_is_bank_account a,
       glaf_cash_flow_classification = gla_cash_flow_classification a,
       glaf_exclude_from_cash_balances = gla_exclude_from_cash_balances a,
       glaf_is_active = gla_is_active a,
       glaf_parent_gl_account_id = gla_parent_gl_account_id a \<rparr>"

text \<open>
  The inner loop \<open>for sub_account in account.sub_accounts\<close>, appending to \<open>transformed\<close>.
  It never looks at a sub-account's own \<open>sub_accounts\<close>.
\<close>

fun sub_accounts_loop ::
  "GeneralLedgerAccountFlattened list \<Rightarrow> GeneralLedgerAccount list \<Rightarrow> GeneralLedgerAccountFlattened list"
where
  "sub_accounts_loop transformed [] = transformed"
| "sub_accounts_loop transformed (sub_account # rest) =
     sub_accounts_loop (transformed @ [flatten_account sub_account]) rest"

text \<open>
  The outer loop \<open>for account in accounts\<close>.  The guard \<open>if account.sub_accounts:\<close> of the
  source covers a log line only; the inner \<open>for\<close> runs on \<open>account.sub_accounts\<close> as it is,
  and iterating \<open>None\<close> raises \<open>TypeError\<close>.  The counter \<open>sub_account_count\<close> is used for
  logging only and is left out.
\<close>

fun accounts_loop ::
  "GeneralLedgerAccountFlattened list \<Rightarrow> GeneralLedgerAccount list
     \<Rightarrow> error + GeneralLedgerAccountFlattened list"
where
  "accounts_loop transformed [] = Inr transformed"
| "accounts_loop transformed (account # rest) =
     (case gla_sub_accounts account of
        None \<Rightarrow> Inl TypeError
      | Some subs \<Rightarrow>
          accounts_loop (sub_accounts_loop (transformed @ [flatten_account account]) subs) rest)"

definition transform_general_ledger_accounts ::
  "GeneralLedgerAccount list \<Rightarrow> error + GeneralLedgerAccountFlattened list"
where
  "transform_general_ledger_accounts accounts = accounts_loop [] accounts"

section \<open>Data model (models/general\_ledger\_transactions.py)\<close>

text \<open>
  Values produced by \<open>json.loads\<close>: the Python objects a JSON text denotes.  An object is a
  \<open>dict\<close>, kept as an association list read with \<open>map_of\<close>.  \<open>List[Any]\<close> fields hold such
  values.
\<close>

datatype json =
    JNull
  | JBool bool
  | JInt int
  | JFloat py_float
  | JStr string
  | JArr "json list"
  | JObj "(string \<times> json) list"

datatype date_type = Date (year: int) (month: int) (day: int)

datatype datetime = Datetime (dt_date: date_type) (hour: int) (minute: int) (second: int)

record UnitAgreement =
  ua_id :: int
  ua_type :: string
  ua_href :: string

record PaymentDetail =
  pd_payment_method :: string
  pd_payee :: "string option"
  pd_is_internal_transaction :: bool
  pd_internal_transaction_status :: "string option"

record DepositDetails =
  dd_bank_gl_account_id :: "int option"
  dd_payment_transactions :: "json list"

record Unit =
  unit_id :: int
  unit_href :: string

record AccountingEntity =
  ae_id :: int
  ae_accounting_entity_type :: string
  ae_href :: string
  ae_unit :: Unit

record JournalLine =
  jl_gl_account :: GeneralLedgerAccount
  jl_amount :: py_float
  jl_is_cash_posting :: bool
  jl_reference_number :: "string option"
  jl_memo :: string
  jl_accounting_entity :: AccountingEntity

record JournalLineTransformed =
  jlt_amount :: py_float
  jlt_is_cash_posting :: bool
  jlt_reference_number :: "string option"
  jlt_memo :: string
  jlt_general_ledger_account_id :: int
  jlt_accounting_entity :: AccountingEntity

record Journal =
  j_memo :: string
  j_lines :: "JournalLine list"

record GeneralLedgerTransaction =
  glt_id :: int
  glt_date :: date_type
  glt_transaction_type :: string
  glt_total_amount :: py_float
  glt_check_number :: string
  glt_unit_agreement :: UnitAgreement
  glt_unit_id :: int
  glt_unit_number :: string
  glt_payment_detail :: PaymentDetail
  glt_deposit_details :: DepositDetails
  glt_journal :: Journal
  glt_last_updated_date_time :: datetime

record GeneralLedgerTransactionTransformed =
  gltt_id :: int
  gltt_date :: date_type
  gltt_transaction_type :: string
  gltt_total_amount :: py_float
  gltt_check_number :: string
  gltt_unit_agreement :: UnitAgreement
  gltt_unit_id :: int
  gltt_unit_number :: string
  gltt_payment_detail :: PaymentDetail
  gltt_deposit_details :: DepositDetails
  gltt_journal_memo :: string
  gltt_lines :: "JournalLineTransformed list"
  gltt_last_updated_date_time :: datetime

section \<open>Transaction deduplicator and flattener
  (transform/transform\_general\_ledger\_transactions.py)\<close>

text \<open>
  One pass of the inner loop body: \<open>base_line = line.model_dump(exclude={"gl_account"})\<close>
  followed by \<open>base_line["general_ledger_account_id"] = line.gl_account.id\<close>; the dictionary
  becomes a \<open>JournalLineTransformed\<close> when the transformed transaction is constructed.
\<close>

definition base_line :: "JournalLine \<Rightarrow> JournalLineTransformed" where
  "base_line line =
     \<lparr> jlt_amount = jl_amount line,
       jlt_is_cash_posting = jl_is_cash_posting line,
       jlt_reference_number = jl_reference_number line,
       jlt_memo = jl_memo line,
       jlt_general_ledger_account_id = gla_id (jl_gl_account line),
       jlt_accounting_entity = jl_accounting_entity line \<rparr>"

text \<open>The loop \<open>for line in transaction.journal.lines\<close>, appending to the \<open>lines\<close> entry.\<close>

fun lines_loop :: "JournalLineTransformed list \<Rightarrow> JournalLine list \<Rightarrow> JournalLineTransformed list"
where
  "lines_loop acc [] = acc"
| "lines_loop acc (line # rest) = lines_loop (acc @ [base_line line]) rest"

text \<open>
  The body of the \<open>try\<close> block for one transaction: \<open>model_dump(exclude={"journal"})\<close>, the
  two added entries and the construction of \<open>GeneralLedgerTransactionTransformed\<close>.  The
  dictionary comes from a validated model and is given back under the same field names, so
  the construction does not fail and the \<open>except\<close> branch (log and re-raise) is never taken.
\<close>

definition transformed_transaction ::
  "GeneralLedgerTransaction \<Rightarrow> GeneralLedgerTransactionTransformed"
where
  "transformed_transaction t =
     \<lparr> gltt_id = glt_id t,
       gltt_date = glt_date t,
       gltt_transaction_type = glt_transaction_type t,
       gltt_total_amount = glt_total_amount t,
       gltt_check_number = glt_check_number t,
       gltt_unit_agreement = glt_unit_agreement t,
       gltt_unit_id = glt_unit_id t,
       gltt_unit_number = glt_unit_number t,
       gltt_payment_detail = glt_payment_detail t,
       gltt_deposit_details = glt_deposit_details t,
       gltt_journal_memo = j_memo (glt_journal t),
       gltt_lines = lines_loop [] (j_lines (glt_journal t)),
       gltt_last_updated_date_time = glt_last_updated_date_time t \<rparr>"

text \<open>
  The loop \<open>for transaction in transactions\<close> with its two accumulators, \<open>result\<close> and the
  set \<open>stored_ids\<close>.  The counter \<open>duplicates_found\<close> is used for logging only.
\<close>

fun transactions_loop ::
  "GeneralLedgerTransactionTransformed list \<Rightarrow> int set \<Rightarrow> GeneralLedgerTransaction list
     \<Rightarrow> GeneralLedgerTransactionTransformed list"
where
  "transactions_loop result stored_ids [] = result"
| "transactions_loop result stored_ids (transaction # rest) =
     (if glt_id transaction \<in> stored_ids
      then transactions_loop result stored_ids rest
      else transactions_loop (result @ [transformed_transaction transaction])
             (insert (glt_id transaction) stored_ids) rest)"

definition transform_general_ledger_transactions ::
  "GeneralLedgerTransaction list \<Rightarrow> GeneralLedgerTransactionTransformed list"
where
  "transform_general_ledger_transactions transactions = transactions_loop [] {} transactions"

text \<open>
  The specification's reading of deduplication: the transactions kept are those at an index
  \<open>i\<close> whose id does not occur at any earlier index, in the order of the input.
\<close>

definition first_occurrences :: "GeneralLedgerTransaction list \<Rightarrow> GeneralLedgerTransaction list"
where
  "first_occurrences ts =
     map (\<lambda>i. ts ! i)
       (filter (\<lambda>i. glt_id (ts ! i) \<notin> glt_id ` set (take i ts)) [0..<length ts])"

text \<open>
  The transactions the loop keeps when it starts with the id set \<open>S\<close>: the loop's own
  recursion without the output accumulator (a device of the proofs).
\<close>

fun kept :: "int set \<Rightarrow> GeneralLedgerTransaction list \<Rightarrow> GeneralLedgerTransaction list" where
  "kept S [] = []"
| "kept S (t # ts) = (if glt_id t \<in> S then kept S ts else t # kept (insert (glt_id t) S) ts)"

section \<open>Retrying fetcher (extract/extract\_general\_ledger\_transactions.py)\<close>

text \<open>
  An HTTP response as the fetcher reads it: \<open>status_code\<close> and \<open>text\<close>.
  \<open>raise_for_status\<close> raises \<open>HTTPError\<close> for a status in 400..599 and returns otherwise.
\<close>

record response =
  status_code :: int
  body_text :: string

definition raise_for_status :: "response \<Rightarrow> error option" where
  "raise_for_status response =
     (if 400 \<le> status_code response \<and> status_code response < 600 then Some HTTPError else None)"

text \<open>
  What the process did besides returning: the arguments of the \<open>time.sleep\<close> calls in
  order, and the number of \<open>requests.get\<close> calls made.
\<close>

record fetch_trace =
  sleeps :: "int list"
  calls :: nat

definition maximum_retries :: nat where
  "maximum_retries = 5"

text \<open>
  The loop \<open>while current_retries < maximum_retries\<close>.  \<open>requests_get n\<close> is the response
  to the \<open>n\<close>-th call (counting from 0) of \<open>requests.get\<close>; the request itself is the same
  on every call.  The loop leaves by \<open>return\<close>, by the exception of \<open>raise_for_status\<close>, or
  by its condition, after which \<open>Exception("Max retries exceeded ...")\<close> is raised.
\<close>

function api_loop ::
  "(nat \<Rightarrow> response) \<Rightarrow> int \<Rightarrow> nat \<Rightarrow> fetch_trace \<Rightarrow> (error + string) \<times> fetch_trace"
where
  "api_loop requests_get delay current_retries trace =
     (if current_retries < maximum_retries then
        (let response = requests_get (calls trace);
             trace = trace\<lparr>calls := calls trace + 1\<rparr>
         in if status_code response = 429
            then api_loop requests_get (delay * 2) (current_retries + 1)
                   (trace\<lparr>sleeps := sleeps trace @ [delay]\<rparr>)
            else (case raise_for_status response of
                    Some e \<Rightarrow> (Inl e, trace)
                  | None \<Rightarrow> (Inr (body_text response), trace)))
      else (Inl MaxRetriesExceeded, trace))"
  by pat_completeness auto
termination
  by (relation "measure (\<lambda>(requests_get, delay, current_retries, trace). maximum_retries - current_retries)") auto

declare api_loop.simps [simp del]

text \<open>
  \<open>fetch_transactions_from_api\<close>: the date check (a \<open>date\<close> is always truthy, so only
  \<open>None\<close> fails it), then the loop with \<open>delay = 2\<close> and \<open>current_retries = 0\<close>.
\<close>

definition fetch_transactions_from_api ::
  "(nat \<Rightarrow> response) \<Rightarrow> int \<Rightarrow> date_type option \<Rightarrow> date_type option
     \<Rightarrow> (error + string) \<times> fetch_trace"
where
  "fetch_transactions_from_api requests_get general_account_id start_date end_date =
     (if start_date = None \<or> end_date = None
      then (Inl ValueError, \<lparr>sleeps = [], calls = 0\<rparr>)
      else api_loop requests_get 2 0 \<lparr>sleeps = [], calls = 0\<rparr>)"

section \<open>Extraction from a JSON payload
  (extract/extract\_general\_ledger\_transactions.py)\<close>

text \<open>
  Python truth value of a loaded JSON value, as \<open>not x\<close> tests it: \<open>None\<close>, \<open>False\<close>, zero,
  and the empty string, list and dict are false.
\<close>

fun truthy :: "json \<Rightarrow> bool" where
  "truthy JNull = False"
| "truthy (JBool b) = b"
| "truthy (JInt n) = (n \<noteq> 0)"
| "truthy (JFloat x) = (x \<noteq> 0)"
| "truthy (JStr s) = (s \<noteq> [])"
| "truthy (JArr xs) = (xs \<noteq> [])"
| "truthy (JObj kvs) = (kvs \<noteq> [])"

text \<open>
  \<open>d.get(key)\<close>: only a dict has the method (\<open>AttributeError\<close> otherwise); a missing key
  gives \<open>None\<close>.  The keys of an object are taken to be distinct, as in a Python dict.
\<close>

definition dict_get :: "json \<Rightarrow> string \<Rightarrow> error + json" where
  "dict_get d key =
     (case d of
        JObj kvs \<Rightarrow> Inr (case map_of kvs key of None \<Rightarrow> JNull | Some v \<Rightarrow> v)
      | _ \<Rightarrow> Inl AttributeError)"

text \<open>
  \<open>d[key]\<close> with a string key: \<open>KeyError\<close> for a dict without the key, \<open>TypeError\<close> for
  any other value.
\<close>

definition subscript :: "json \<Rightarrow> string \<Rightarrow> error + json" where
  "subscript d key =
     (case d of
        JObj kvs \<Rightarrow> (case map_of kvs key of None \<Rightarrow> Inl KeyError | Some v \<Rightarrow> Inr v)
      | _ \<Rightarrow> Inl TypeError)"

text \<open>
  The elements a \<open>for\<close> loop visits: the items of a list, the characters of a string, the
  keys of a dict; any other value is not iterable.
\<close>

definition iterate :: "json \<Rightarrow> error + json list" where
  "iterate v =
     (case v of
        JArr xs \<Rightarrow> Inr xs
      | JStr s \<Rightarrow> Inr (map (\<lambda>c. JStr [c]) s)
      | JObj kvs \<Rightarrow> Inr (map (\<lambda>kv. JStr (fst kv)) kvs)
      | _ \<Rightarrow> Inl TypeError)"

text \<open>
  \<open>value == general_account_id\<close> for an \<open>int\<close> on the right: numbers compare by value
  (\<open>True\<close> is 1, \<open>False\<close> is 0), everything else is unequal.
\<close>

fun py_eq_int :: "json \<Rightarrow> int \<Rightarrow> bool" where
  "py_eq_int (JInt n) a = (n = a)"
| "py_eq_int (JBool b) a = ((if b then 1 else 0) = a)"
| "py_eq_int (JFloat x) a = (x = of_int a)"
| "py_eq_int JNull a = False"
| "py_eq_int (JStr s) a = False"
| "py_eq_int (JArr xs) a = False"
| "py_eq_int (JObj kvs) a = False"

text \<open>
  The inner loop of \<open>transactions_json_search\<close> over the lines of one journal: \<open>True\<close>
  when it reaches the \<open>append\<close> and \<open>break\<close>, \<open>False\<close> when it runs to the end.
\<close>

fun lines_search :: "json list \<Rightarrow> int \<Rightarrow> error + bool" where
  "lines_search [] general_account_id = Inr False"
| "lines_search (line # rest) general_account_id =
     (case dict_get line ''GLAccount'' of
        Inl e \<Rightarrow> Inl e
      | Inr account \<Rightarrow>
          if \<not> truthy account then lines_search rest general_account_id
          else (case subscript account ''Id'' of
                  Inl e \<Rightarrow> Inl e
                | Inr account_id \<Rightarrow>
                    if py_eq_int account_id general_account_id then Inr True
                    else lines_search rest general_account_id))"

text \<open>
  The outer loop of \<open>transactions_json_search\<close> with its accumulator \<open>result\<close>.
\<close>

fun search_loop :: "json list \<Rightarrow> json list \<Rightarrow> int \<Rightarrow> error + json list" where
  "search_loop result [] general_account_id = Inr result"
| "search_loop result (json_transaction # rest) general_account_id =
     (case dict_get json_transaction ''Journal'' of
        Inl e \<Rightarrow> Inl e
      | Inr journal \<Rightarrow>
          if \<not> truthy journal then search_loop result rest general_account_id
          else (case dict_get journal ''Lines'' of
                  Inl e \<Rightarrow> Inl e
                | Inr lines \<Rightarrow>
                    if \<not> truthy lines then search_loop result rest general_account_id
                    else (case iterate lines of
                            Inl e \<Rightarrow> Inl e
                          | Inr ls \<Rightarrow>
                              (case lines_search ls general_account_id of
                                 Inl e \<Rightarrow> Inl e
                               | Inr found \<Rightarrow>
                                   search_loop (if found then result @ [json_transaction] else result)
                                     rest general_account_id))))"

text \<open>
  \<open>transactions_json_search\<close> returns \<open>json.dumps(result)\<close>; the model returns the list
  itself, which stands for its JSON text.
\<close>

definition transactions_json_search :: "json \<Rightarrow> int \<Rightarrow> error + json" where
  "transactions_json_search json_transactions general_account_id =
     (case iterate json_transactions of
        Inl e \<Rightarrow> Inl e
      | Inr ts \<Rightarrow> map_sum id JArr (search_loop [] ts general_account_id))"

text \<open>
  What the extraction code takes from outside the repository: the JSON parser
  (\<open>json.loads\<close>, and the parser inside \<open>validate_json\<close>), the validation of one array
  element against the record shape (\<open>None\<close> when the element is rejected), and the response
  to the \<open>n\<close>-th HTTP call.
\<close>

record 'a environment =
  json_loads :: "string \<Rightarrow> json option"
  validate_model :: "json \<Rightarrow> 'a option"
  http_get :: "nat \<Rightarrow> response"

definition fetch_transactions_from_json ::
  "'a environment \<Rightarrow> string \<Rightarrow> int \<Rightarrow> error + json"
where
  "fetch_transactions_from_json env json_data general_account_id =
     (case json_loads env json_data of
        None \<Rightarrow> Inl JSONDecodeError
      | Some full_json_transactions \<Rightarrow>
          transactions_json_search full_json_transactions general_account_id)"

text \<open>
  \<open>TypeAdapter(list[T]).validate_json\<close>: the text must parse to an array, and every element
  must validate; otherwise \<open>ValidationError\<close> is raised and no list is returned.
  \<open>validate_python\<close> is the same on a value already loaded; the code path through
  \<open>transactions_json_search\<close> dumps its result and validates the text, which here is the
  validation of the result itself.
\<close>

fun validate_items :: "(json \<Rightarrow> 'a option) \<Rightarrow> json list \<Rightarrow> error + 'a list" where
  "validate_items validate_item [] = Inr []"
| "validate_items validate_item (item # rest) =
     (case validate_item item of
        None \<Rightarrow> Inl ValidationError
      | Some model \<Rightarrow>
          (case validate_items validate_item rest of
             Inl e \<Rightarrow> Inl e
           | Inr models \<Rightarrow> Inr (model # models)))"

definition validate_python :: "(json \<Rightarrow> 'a option) \<Rightarrow> json \<Rightarrow> error + 'a list" where
  "validate_python validate_item v =
     (case v of JArr items \<Rightarrow> validate_items validate_item items | _ \<Rightarrow> Inl ValidationError)"

definition validate_json :: "'a environment \<Rightarrow> string \<Rightarrow> error + 'a list" where
  "validate_json env text =
     (case json_loads env text of
        None \<Rightarrow> Inl ValidationError
      | Some v \<Rightarrow> validate_python (validate_model env) v)"

text \<open>
  \<open>get_general_ledger_transactions\<close>.  \<open>if not general_account_id\<close> is true for \<open>None\<close> and
  for the integer 0.  The \<open>except\<close> clauses log and re-raise.  The sleeps of the API path are
  not part of the returned value.
\<close>

definition get_general_ledger_transactions ::
  "GeneralLedgerTransaction environment \<Rightarrow> int option \<Rightarrow> date_type option \<Rightarrow> date_type option
     \<Rightarrow> string option \<Rightarrow> error + GeneralLedgerTransaction list"
where
  "get_general_ledger_transactions env general_account_id start_date end_date json_data =
     (case general_account_id of
        None \<Rightarrow> Inl ValueError
      | Some account_id \<Rightarrow>
          if account_id = 0 then Inl ValueError
          else (case json_data of
                  Some data \<Rightarrow>
                    (case fetch_transactions_from_json env data account_id of
                       Inl e \<Rightarrow> Inl e
                     | Inr json_transactions \<Rightarrow> validate_python (validate_model env) json_transactions)
                | None \<Rightarrow>
                    if start_date = None \<or> end_date = None then Inl ValueError
                    else (case fst (fetch_transactions_from_api (http_get env) account_id
                                      start_date end_date) of
                            Inl e \<Rightarrow> Inl e
                          | Inr json_transactions \<Rightarrow> validate_json env json_transactions)))"

text \<open>
  \<open>get_general_ledger_accounts\<close> (extract/extract\_general\_ledger\_accounts.py): the given
  text, or the body of one HTTP call after \<open>raise_for_status\<close>, is validated as a whole.
\<close>

definition get_general_ledger_accounts ::
  "GeneralLedgerAccount environment \<Rightarrow> string option \<Rightarrow> error + GeneralLedgerAccount list"
where
  "get_general_ledger_accounts env json_data =
     (case (case json_data of
              Some data \<Rightarrow> Inr data
            | None \<Rightarrow>
                (let response = http_get env 0
                 in case raise_for_status response of
                      Some e \<Rightarrow> Inl e
                    | None \<Rightarrow> Inr (body_text response))) of
        Inl e \<Rightarrow> Inl e
      | Inr json_accounts \<Rightarrow> validate_json env json_accounts)"

section \<open>Participation mapper (transform/transform\_account\_participation.py)\<close>

text \<open>
  \<open>GeneralLedgerAccountTransactions\<close> (models/general\_ledger\_account\_transactions.py).
\<close>

record GeneralLedgerAccountTransactions =
  gat_account_id :: int
  gat_transaction_id :: int

text \<open>
  The loop \<open>for transaction in transactions\<close> of \<open>map_account_participation\<close>.
\<close>

fun rows_loop ::
  "GeneralLedgerAccountTransactions list \<Rightarrow> int \<Rightarrow> GeneralLedgerTransaction list
     \<Rightarrow> GeneralLedgerAccountTransactions list"
where
  "rows_loop transactions_per_account acc_id [] = transactions_per_account"
| "rows_loop transactions_per_account acc_id (transaction # rest) =
     rows_loop (transactions_per_account @ [\<lparr>gat_account_id = acc_id, gat_transaction_id = glt_id transaction\<rparr>])
       acc_id rest"

text \<open>
  The loop \<open>for account_id in general_ledger_accounts_ids\<close>.  The ids are a Python set;
  the list is the order in which the set is iterated.  An exception of the per-account call
  is logged and re-raised.
\<close>

fun participation_loop ::
  "GeneralLedgerTransaction environment \<Rightarrow> string
     \<Rightarrow> GeneralLedgerAccountTransactions list \<Rightarrow> GeneralLedgerTransaction list \<Rightarrow> int list
     \<Rightarrow> error + GeneralLedgerAccountTransactions list \<times> GeneralLedgerTransaction list"
where
  "participation_loop env json_data transactions_per_account all_transactions [] =
     Inr (transactions_per_account, all_transactions)"
| "participation_loop env json_data transactions_per_account all_transactions (acc_id # rest) =
     (case get_general_ledger_transactions env (Some acc_id) None None (Some json_data) of
        Inl e \<Rightarrow> Inl e
      | Inr transactions \<Rightarrow>
          if transactions \<noteq> []
          then participation_loop env json_data
                 (rows_loop transactions_per_account acc_id transactions)
                 (all_transactions @ transactions) rest
          else participation_loop env json_data transactions_per_account all_transactions rest)"

definition map_account_participation ::
  "GeneralLedgerTransaction environment \<Rightarrow> int list \<Rightarrow> string
     \<Rightarrow> error + GeneralLedgerAccountTransactions list \<times> GeneralLedgerTransaction list"
where
  "map_account_participation env general_ledger_accounts_ids general_ledger_transactions_json_data =
     participation_loop env general_ledger_transactions_json_data [] [] general_ledger_accounts_ids"

section \<open>Stage-and-merge loader (load/load\_into\_snowflake.py)\<close>

text \<open>
  A value in the dictionary \<open>model_dump()\<close> returns: what a JSON text can denote, or a
  \<open>date\<close> or \<open>datetime\<close> object.  A row is such a dictionary, in key order.
\<close>

datatype py_value = Json json | DateValue date_type | DatetimeValue datetime

type_synonym row = "(string \<times> py_value) list"

text \<open>
  \<open>row[key] = v\<close>: an existing key keeps its place, a new key goes to the end.
\<close>

definition dict_set :: "row \<Rightarrow> string \<Rightarrow> py_value \<Rightarrow> row" where
  "dict_set row key v =
     (if key \<in> fst ` set row
      then map (\<lambda>kv. if fst kv = key then (key, v) else kv) row
      else row @ [(key, v)])"

text \<open>
  What the loader takes from outside the repository: \<open>json.dumps\<close>, the clock
  (\<open>now_isoformat n\<close> is \<open>datetime.now().isoformat()\<close> at row \<open>n\<close>), whether a path under
  \<open>/tmp/\<close> can be opened, and whether the warehouse accepts a statement (the SQL text with
  its bound parameters).
\<close>

record loader_environment =
  json_dumps :: "json \<Rightarrow> string"
  now_isoformat :: "nat \<Rightarrow> string"
  open_ok :: "string \<Rightarrow> bool"
  execute_ok :: "string \<times> string list \<Rightarrow> bool"

text \<open>
  \<open>preprocess_row\<close>: the two metadata entries are set, then every \<open>dict\<close> or \<open>list\<close> value is
  replaced by its \<open>json.dumps\<close> text.
\<close>

definition preprocess_row :: "loader_environment \<Rightarrow> nat \<Rightarrow> row \<Rightarrow> string \<Rightarrow> row" where
  "preprocess_row env n row run_id =
     map (\<lambda>kv. (fst kv,
                 (case snd kv of
                    Json (JObj d) \<Rightarrow> Json (JStr (json_dumps env (JObj d)))
                  | Json (JArr l) \<Rightarrow> Json (JStr (json_dumps env (JArr l)))
                  | v \<Rightarrow> v)))
       (dict_set (dict_set row ''run_id'' (Json (JStr run_id)))
          ''inserted_at'' (Json (JStr (now_isoformat env n))))"

text \<open>
  \<open>DictWriter.writerow\<close>: \<open>ValueError\<close> for a key outside \<open>fieldnames\<close>, the empty string
  for a missing one.  The file is kept as its cells; quoting and escaping are left out.
\<close>

definition writerow :: "string list \<Rightarrow> row \<Rightarrow> error + py_value list" where
  "writerow fieldnames rowdict =
     (if \<exists>key \<in> fst ` set rowdict. key \<notin> set fieldnames then Inl ValueError
      else Inr (map (\<lambda>key. case map_of rowdict key of None \<Rightarrow> Json (JStr []) | Some v \<Rightarrow> v)
                  fieldnames))"

text \<open>
  The loop \<open>for row in data\<close> of \<open>export_data_to_csv\<close>.
\<close>

fun rows_written ::
  "loader_environment \<Rightarrow> string list \<Rightarrow> string \<Rightarrow> nat \<Rightarrow> py_value list list \<Rightarrow> row list
     \<Rightarrow> error + py_value list list"
where
  "rows_written env fieldnames run_id n written [] = Inr written"
| "rows_written env fieldnames run_id n written (row_without_metadata # rest) =
     (case writerow fieldnames (preprocess_row env n row_without_metadata run_id) of
        Inl e \<Rightarrow> Inl e
      | Inr cells \<Rightarrow> rows_written env fieldnames run_id (n + 1) (written @ [cells]) rest)"

text \<open>
  \<open>export_data_to_csv\<close>.  A model instance is given by its \<open>model_dump()\<close> dictionary, the
  only thing the function asks of it.  The file is opened first; \<open>data[0]\<close> on the empty list
  raises \<open>IndexError\<close>.  The \<open>except\<close> clause logs and re-raises.
\<close>

record csv_file =
  csv_path :: string
  csv_header :: "string list"
  csv_rows :: "py_value list list"

definition export_data_to_csv ::
  "loader_environment \<Rightarrow> row list \<Rightarrow> string \<Rightarrow> string \<Rightarrow> error + csv_file"
where
  "export_data_to_csv env data file_name run_id =
     (if \<not> open_ok env (''/tmp/'' @ file_name) then Inl OSError
      else (case data of
              [] \<Rightarrow> Inl IndexError
            | first # _ \<Rightarrow>
                (let fieldnames = map fst first @ [''run_id'', ''inserted_at'']
                 in case rows_written env fieldnames run_id 0 [] data of
                      Inl e \<Rightarrow> Inl e
                    | Inr written \<Rightarrow>
                        Inr \<lparr>csv_path = ''/tmp/'' @ file_name, csv_header = fieldnames,
                             csv_rows = written\<rparr>)))"

text \<open>
  Statements go to \<open>cursor.execute\<close> one after the other; the first one the warehouse
  refuses raises and ends the call.
\<close>

type_synonym statement = "string \<times> string list"

fun execute_all ::
  "loader_environment \<Rightarrow> statement list \<Rightarrow> statement list \<Rightarrow> error + statement list"
where
  "execute_all env executed [] = Inr executed"
| "execute_all env executed (stmt # rest) =
     (if execute_ok env stmt then execute_all env (executed @ [stmt]) rest else Inl SnowflakeError)"

text \<open>
  \<open>stage_file_in_snowflake\<close>: the exported file is opened, then \<open>USE SCHEMA\<close>, \<open>PUT\<close> and
  \<open>copy into\<close> are executed.  The quote and backslash
  characters of the last statement are written by their codes.  The row count read back
  afterwards feeds a log line only.
\<close>

definition stage_file_in_snowflake ::
  "loader_environment \<Rightarrow> string \<Rightarrow> string \<Rightarrow> error + statement list"
where
  "stage_file_in_snowflake env file_name table_name =
     (if \<not> open_ok env (''/tmp/'' @ file_name) then Inl OSError
      else execute_all env []
       [(''USE SCHEMA GENERAL_LEDGER_STAGING'', []),
        (''PUT file:///tmp/'' @ file_name @ '' @%'' @ table_name @ '' OVERWRITE = TRUE'', []),
        (''copy into '' @ table_name @ '' from @%'' @ table_name @ ''/'' @ file_name
           @ ''.gz file_format = (type = csv field_optionally_enclosed_by = ''
           @ [CHR 0x27, CHR 0x22, CHR 0x27] @ '' skip_header = 1 escape=''
           @ [CHR 0x27, CHR 0x5C, CHR 0x5C, CHR 0x27] @ '') on_error = ''
           @ [CHR 0x27] @ ''abort_statement'' @ [CHR 0x27], [])])"

text \<open>
  \<open>sep.join(xs)\<close>, built from left to right.
\<close>

fun str_join_from :: "string \<Rightarrow> string \<Rightarrow> string list \<Rightarrow> string" where
  "str_join_from sep acc [] = acc"
| "str_join_from sep acc (x # xs) = str_join_from sep (acc @ sep @ x) xs"

definition str_join :: "string \<Rightarrow> string list \<Rightarrow> string" where
  "str_join sep xs = (case xs of [] \<Rightarrow> [] | x # rest \<Rightarrow> str_join_from sep x rest)"

text \<open>
  \<open>merge_staging_table_into_target_table\<close>: the match condition, the statement text of the
  f-string, and the single \<open>cursor.execute(merge_query, (run_id,))\<close>.  The key columns are
  passed explicitly; the default of the source is \<open>["id"]\<close>.
\<close>

definition id_matching :: "string list \<Rightarrow> string" where
  "id_matching id_matching_columns =
     str_join '' AND '' (map (\<lambda>column. ''target.'' @ column @ '' = source.'' @ column) id_matching_columns)"

definition merge_query :: "string \<Rightarrow> string \<Rightarrow> string list \<Rightarrow> string list \<Rightarrow> string" where
  "merge_query staging_table target_table columns id_matching_columns =
     ''MERGE INTO '' @ target_table @ '' AS target USING (SELECT * FROM '' @ staging_table
       @ '' WHERE run_id = %s) AS source ON '' @ id_matching id_matching_columns
       @ '' WHEN NOT MATCHED THEN INSERT ('' @ str_join '', '' columns
       @ '') VALUES ('' @ str_join '', '' columns @ '')''"

definition merge_staging_table_into_target_table ::
  "loader_environment \<Rightarrow> string \<Rightarrow> string \<Rightarrow> string list \<Rightarrow> string \<Rightarrow> string list
     \<Rightarrow> error + statement list"
where
  "merge_staging_table_into_target_table env staging_table target_table columns run_id
       id_matching_columns =
     execute_all env []
       [(merge_query staging_table target_table columns id_matching_columns, [run_id])]"

text \<open>
  \<open>model_dump()\<close> of the three models that are loaded: one entry per field, under the
  Python field name, nested models as dictionaries.
\<close>

definition optional_str :: "string option \<Rightarrow> json" where
  "optional_str v = (case v of None \<Rightarrow> JNull | Some s \<Rightarrow> JStr s)"

definition optional_int :: "int option \<Rightarrow> json" where
  "optional_int v = (case v of None \<Rightarrow> JNull | Some i \<Rightarrow> JInt i)"

definition model_dump_account :: "GeneralLedgerAccountFlattened \<Rightarrow> row" where
  "model_dump_account a =
     [(''id'', Json (JInt (glaf_id a))),
      (''account_number'', Json (optional_str (glaf_account_number a))),
      (''name'', Json (JStr (glaf_name a))),
      (''description'', Json (optional_str (glaf_description a))),
      (''type'', Json (JStr (glaf_type a))),
      (''sub_type'', Json (JStr (glaf_sub_type a))),
      (''is_default_gl_account'', Json (JBool (glaf_is_default_gl_account a))),
      (''default_account_name'', Json (optional_str (glaf_default_account_name a))),
      (''is_contra_account'', Json (JBool (glaf_is_contra_account a))),
      (''is_bank_account'', Json (JBool (glaf_is_bank_account a))),
      (''cash_flow_classification'', Json (optional_str (glaf_cash_flow_classification a))),
      (''exclude_from_cash_balances'', Json (JBool (glaf_exclude_from_cash_balances a))),
      (''is_active'', Json (JBool (glaf_is_active a))),
      (''parent_gl_account_id'', Json (optional_int (glaf_parent_gl_account_id a)))]"

definition model_dump_line :: "JournalLineTransformed \<Rightarrow> json" where
  "model_dump_line l =
     JObj [(''amount'', JFloat (jlt_amount l)),
           (''is_cash_posting'', JBool (jlt_is_cash_posting l)),
           (''reference_number'', optional_str (jlt_reference_number l)),
           (''memo'', JStr (jlt_memo l)),
           (''general_ledger_account_id'', JInt (jlt_general_ledger_account_id l)),
           (''accounting_entity'',
              JObj [(''id'', JInt (ae_id (jlt_accounting_entity l))),
                    (''accounting_entity_type'', JStr (ae_accounting_entity_type (jlt_accounting_entity l))),
                    (''href'', JStr (ae_href (jlt_accounting_entity l))),
                    (''unit'',
                       JObj [(''id'', JInt (unit_id (ae_unit (jlt_accounting_entity l)))),
                             (''href'', JStr (unit_href (ae_unit (jlt_accounting_entity l))))])])]"

definition model_dump_transaction :: "GeneralLedgerTransactionTransformed \<Rightarrow> row" where
  "model_dump_transaction t =
     [(''id'', Json (JInt (gltt_id t))),
      (''date'', DateValue (gltt_date t)),
      (''transaction_type'', Json (JStr (gltt_transaction_type t))),
      (''total_amount'', Json (JFloat (gltt_total_amount t))),
      (''check_number'', Json (JStr (gltt_check_number t))),
      (''unit_agreement'',
         Json (JObj [(''id'', JInt (ua_id (gltt_unit_agreement t))),
                     (''type'', JStr (ua_type (gltt_unit_agreement t))),
                     (''href'', JStr (ua_href (gltt_unit_agreement t)))])),
      (''unit_id'', Json (JInt (gltt_unit_id t))),
      (''unit_number'', Json (JStr (gltt_unit_number t))),
      (''payment_detail'',
         Json (JObj [(''payment_method'', JStr (pd_payment_method (gltt_payment_detail t))),
                     (''payee'', optional_str (pd_payee (gltt_payment_detail t))),
                     (''is_internal_transaction'', JBool (pd_is_internal_transaction (gltt_payment_detail t))),
                     (''internal_transaction_status'',
                        optional_str (pd_internal_transaction_status (gltt_payment_detail t)))])),
      (''deposit_details'',
         Json (JObj [(''bank_gl_account_id'', optional_int (dd_bank_gl_account_id (gltt_deposit_details t))),
                     (''payment_transactions'', JArr (dd_payment_transactions (gltt_deposit_details t)))])),
      (''journal_memo'', Json (JStr (gltt_journal_memo t))),
      (''lines'', Json (JArr (map model_dump_line (gltt_lines t)))),
      (''last_updated_date_time'', DatetimeValue (gltt_last_updated_date_time t))]"

definition model_dump_account_transactions :: "GeneralLedgerAccountTransactions \<Rightarrow> row" where
  "model_dump_account_transactions r =
     [(''account_id'', Json (JInt (gat_account_id r))),
      (''transaction_id'', Json (JInt (gat_transaction_id r)))]"

text \<open>
  The three loaders: export, stage, merge.  The argument
  \<open>data[0].model_dump().keys()\<close> of the merge is evaluated after staging and raises
  \<open>IndexError\<close> on the empty list.  The result is the file written and the statements
  executed, in order.
\<close>

definition load_general_ledger_accounts_into_snowflake ::
  "loader_environment \<Rightarrow> GeneralLedgerAccountFlattened list \<Rightarrow> string
     \<Rightarrow> error + csv_file \<times> statement list"
where
  "load_general_ledger_accounts_into_snowflake env general_ledger_accounts run_id =
     (let file_name = ''general_ledger_accounts_'' @ run_id @ ''.csv''
      in case export_data_to_csv env (map model_dump_account general_ledger_accounts)
                file_name run_id of
           Inl e \<Rightarrow> Inl e
         | Inr file \<Rightarrow>
             (case stage_file_in_snowflake env file_name ''account'' of
                Inl e \<Rightarrow> Inl e
              | Inr staged \<Rightarrow>
                  (case general_ledger_accounts of
                     [] \<Rightarrow> Inl IndexError
                   | first # _ \<Rightarrow>
                       (case merge_staging_table_into_target_table env
                               ''general_ledger_staging.account'' ''general_ledger.account''
                               (map fst (model_dump_account first)) run_id [''id''] of
                          Inl e \<Rightarrow> Inl e
                        | Inr merged \<Rightarrow> Inr (file, staged @ merged)))))"

definition load_general_ledger_transactions_into_snowflake ::
  "loader_environment \<Rightarrow> GeneralLedgerTransactionTransformed list \<Rightarrow> string
     \<Rightarrow> error + csv_file \<times> statement list"
where
  "load_general_ledger_transactions_into_snowflake env general_ledger_transactions run_id =
     (let file_name = ''general_ledger_transactions_'' @ run_id @ ''.csv''
      in case export_data_to_csv env (map model_dump_transaction general_ledger_transactions)
                file_name run_id of
           Inl e \<Rightarrow> Inl e
         | Inr file \<Rightarrow>
             (case stage_file_in_snowflake env file_name ''transaction'' of
                Inl e \<Rightarrow> Inl e
              | Inr staged \<Rightarrow>
                  (case general_ledger_transactions of
                     [] \<Rightarrow> Inl IndexError
                   | first # _ \<Rightarrow>
                       (case merge_staging_table_into_target_table env
                               ''general_ledger_staging.transaction'' ''general_ledger.transaction''
                               (map fst (model_dump_transaction first)) run_id [''id''] of
                          Inl e \<Rightarrow> Inl e
                        | Inr merged \<Rightarrow> Inr (file, staged @ merged)))))"

definition load_general_ledger_account_transactions_into_snowflake ::
  "loader_environment \<Rightarrow> GeneralLedgerAccountTransactions list \<Rightarrow> string
     \<Rightarrow> error + csv_file \<times> statement list"
where
  "load_general_ledger_account_transactions_into_snowflake env general_ledger_account_transactions
       run_id =
     (let file_name = ''general_ledger_account_transactions_'' @ run_id @ ''.csv''
      in case export_data_to_csv env
                (map model_dump_account_transactions general_ledger_account_transactions)
                file_name run_id of
           Inl e \<Rightarrow> Inl e
         | Inr file \<Rightarrow>
             (case stage_file_in_snowflake env file_name ''account_transactions'' of
                Inl e \<Rightarrow> Inl e
              | Inr staged \<Rightarrow>
                  (case general_ledger_account_transactions of
                     [] \<Rightarrow> Inl IndexError
                   | first # _ \<Rightarrow>
                       (case merge_staging_table_into_target_table env
                               ''general_ledger_staging.account_transactions''
                               ''general_ledger.account_transactions''
                               (map fst (model_dump_account_transactions first)) run_id
                               [''account_id'', ''transaction_id''] of
                          Inl e \<Rightarrow> Inl e
                        | Inr merged \<Rightarrow> Inr (file, staged @ merged)))))"

section \<open>Participation as the specification words it\<close>

text \<open>
  The specification's reading of participation: the journal lines of a payload element
  (none when the element has no journal or no line list), the \<open>Id\<close> of a line's \<open>GLAccount\<close>,
  and "the element has at least one journal line whose GLAccount Id equals the account id".
\<close>

definition element_lines :: "json \<Rightarrow> json list" where
  "element_lines item =
     (case item of
        JObj kvs \<Rightarrow>
          (case map_of kvs ''Journal'' of
             Some (JObj journal) \<Rightarrow>
               (case map_of journal ''Lines'' of Some (JArr lines) \<Rightarrow> lines | _ \<Rightarrow> [])
           | _ \<Rightarrow> [])
      | _ \<Rightarrow> [])"

definition line_account_id :: "json \<Rightarrow> json option" where
  "line_account_id line =
     (case line of
        JObj kvs \<Rightarrow>
          (case map_of kvs ''GLAccount'' of Some (JObj account) \<Rightarrow> map_of account ''Id'' | _ \<Rightarrow> None)
      | _ \<Rightarrow> None)"

definition line_is_for :: "int \<Rightarrow> json \<Rightarrow> bool" where
  "line_is_for a line = (case line_account_id line of Some v \<Rightarrow> py_eq_int v a | None \<Rightarrow> False)"

definition has_line_for :: "int \<Rightarrow> json \<Rightarrow> bool" where
  "has_line_for a item = (\<exists>line \<in> set (element_lines item). line_is_for a line)"

text \<open>
  Payload elements on which the search does not raise: objects whose \<open>Journal\<close>, if truthy,
  is an object whose \<open>Lines\<close>, if truthy, is a list of objects whose \<open>GLAccount\<close>, if truthy,
  is an object with an \<open>Id\<close>.
\<close>

definition well_formed_line :: "json \<Rightarrow> bool" where
  "well_formed_line line =
     (case line of
        JObj kvs \<Rightarrow>
          (case map_of kvs ''GLAccount'' of
             None \<Rightarrow> True
           | Some (JObj account) \<Rightarrow> account = [] \<or> map_of account ''Id'' \<noteq> None
           | Some v \<Rightarrow> \<not> truthy v)
      | _ \<Rightarrow> False)"

definition well_formed_element :: "json \<Rightarrow> bool" where
  "well_formed_element item =
     (case item of
        JObj kvs \<Rightarrow>
          (case map_of kvs ''Journal'' of
             None \<Rightarrow> True
           | Some (JObj journal) \<Rightarrow>
               (case map_of journal ''Lines'' of
                  None \<Rightarrow> True
                | Some (JArr lines) \<Rightarrow> list_all well_formed_line lines
                | Some v \<Rightarrow> \<not> truthy v)
           | Some v \<Rightarrow> \<not> truthy v)
      | _ \<Rightarrow> False)"

text \<open>
  The validated transactions of the payload elements that have a line for account \<open>a\<close>.
\<close>

definition matching :: "GeneralLedgerTransaction environment \<Rightarrow> json list \<Rightarrow> int \<Rightarrow> GeneralLedgerTransaction list"
where
  "matching env items a = map (\<lambda>item. the (validate_model env item)) (filter (has_line_for a) items)"

section \<open>The merge statement as the specification words it\<close>

text \<open>
  The specification's reading of the merge: a statement with a target, a source table
  filtered by a condition, key columns matched by equality, and a list of \<open>WHEN\<close> clauses;
  \<open>render_merge\<close> is its SQL text.
\<close>

datatype merge_clause =
    WhenNotMatchedInsert "string list"
  | WhenMatchedUpdate "string list"
  | WhenMatchedDelete

record merge_statement =
  merge_target :: string
  merge_source_table :: string
  merge_source_filter :: string
  merge_keys :: "string list"
  merge_clauses :: "merge_clause list"

fun conjunction :: "string list \<Rightarrow> string" where
  "conjunction [] = []"
| "conjunction [clause] = clause"
| "conjunction (clause # rest) = clause @ '' AND '' @ conjunction rest"

fun comma_list :: "string list \<Rightarrow> string" where
  "comma_list [] = []"
| "comma_list [x] = x"
| "comma_list (x # rest) = x @ '', '' @ comma_list rest"

fun render_clause :: "merge_clause \<Rightarrow> string" where
  "render_clause (WhenNotMatchedInsert columns) =
     '' WHEN NOT MATCHED THEN INSERT ('' @ comma_list columns @ '') VALUES (''
       @ comma_list columns @ '')''"
| "render_clause (WhenMatchedUpdate columns) =
     '' WHEN MATCHED THEN UPDATE SET ''
       @ comma_list (map (\<lambda>column. column @ '' = source.'' @ column) columns)"
| "render_clause WhenMatchedDelete = '' WHEN MATCHED THEN DELETE''"

definition render_merge :: "merge_statement \<Rightarrow> string" where
  "render_merge m =
     ''MERGE INTO '' @ merge_target m @ '' AS target USING (SELECT * FROM '' @ merge_source_table m
       @ '' WHERE '' @ merge_source_filter m @ '') AS source ON ''
       @ conjunction (map (\<lambda>column. ''target.'' @ column @ '' = source.'' @ column) (merge_keys m))
       @ concat (map render_clause (merge_clauses m))"

section \<open>Sample records\<close>

text \<open>Concrete records on which the theorems below are instantiated.\<close>

definition sample_account :: "int \<Rightarrow> GeneralLedgerAccount list option \<Rightarrow> GeneralLedgerAccount" where
  "sample_account i subs =
     GeneralLedgerAccount i None ''Rental Income'' None ''Income'' ''Income'' True None
       False False None False subs True None"

definition sample_line :: "int \<Rightarrow> py_float \<Rightarrow> JournalLine" where
  "sample_line account_id amount =
     \<lparr> jl_gl_account = sample_account account_id None,
       jl_amount = amount,
       jl_is_cash_posting = False,
       jl_reference_number = None,
       jl_memo = ''line'',
       jl_accounting_entity =
         \<lparr> ae_id = 9, ae_accounting_entity_type = ''Rental'', ae_href = ''h'',
           ae_unit = \<lparr> unit_id = 4, unit_href = ''u'' \<rparr> \<rparr> \<rparr>"

definition sample_transaction :: "int \<Rightarrow> string \<Rightarrow> JournalLine list \<Rightarrow> GeneralLedgerTransaction" where
  "sample_transaction i memo lines =
     \<lparr> glt_id = i,
       glt_date = Date 2024 12 15,
       glt_transaction_type = ''Charge'',
       glt_total_amount = 60,
       glt_check_number = [],
       glt_unit_agreement = \<lparr> ua_id = 130647, ua_type = ''Lease'', ua_href = ''l'' \<rparr>,
       glt_unit_id = 96242,
       glt_unit_number = ''707203'',
       glt_payment_detail =
         \<lparr> pd_payment_method = ''None'', pd_payee = None,
           pd_is_internal_transaction = False, pd_internal_transaction_status = None \<rparr>,
       glt_deposit_details = \<lparr> dd_bank_gl_account_id = None, dd_payment_transactions = [] \<rparr>,
       glt_journal = \<lparr> j_memo = memo, j_lines = lines \<rparr>,
       glt_last_updated_date_time = Datetime (Date 2024 12 16) 10 30 0 \<rparr>"

text \<open>A finite script of responses; the last one is repeated for every later call.\<close>

definition responses :: "response list \<Rightarrow> nat \<Rightarrow> response" where
  "responses rs n = (if n < length rs then rs ! n else last rs)"

text \<open>
  Sample payload elements, two stand-in element validators (an element is accepted when
  it is an object with an integer \<open>Id\<close>) and an environment whose parser knows one text.
\<close>

definition sample_json_line :: "int \<Rightarrow> json" where
  "sample_json_line a =
     JObj [(''GLAccount'', JObj [(''Id'', JInt a), (''Name'', JStr ''Rental Income'')]),
           (''Amount'', JInt 60)]"

definition sample_json_transaction :: "int \<Rightarrow> int list \<Rightarrow> json" where
  "sample_json_transaction i accounts =
     JObj [(''Id'', JInt i),
           (''Journal'', JObj [(''Memo'', JStr ''memo''), (''Lines'', JArr (map sample_json_line accounts))])]"

definition malformed_json_transaction :: "int \<Rightarrow> json" where
  "malformed_json_transaction a =
     JObj [(''Journal'', JObj [(''Lines'', JArr [sample_json_line a])])]"

definition sample_validate_transaction :: "json \<Rightarrow> GeneralLedgerTransaction option" where
  "sample_validate_transaction item =
     (case item of
        JObj kvs \<Rightarrow>
          (case map_of kvs ''Id'' of
             Some (JInt i) \<Rightarrow> Some (sample_transaction i ''memo'' [])
           | _ \<Rightarrow> None)
      | _ \<Rightarrow> None)"

definition sample_validate_account :: "json \<Rightarrow> GeneralLedgerAccount option" where
  "sample_validate_account item =
     (case item of
        JObj kvs \<Rightarrow>
          (case map_of kvs ''Id'' of
             Some (JInt i) \<Rightarrow> Some (sample_account i (Some []))
           | _ \<Rightarrow> None)
      | _ \<Rightarrow> None)"

definition sample_environment :: "(json \<Rightarrow> 'a option) \<Rightarrow> json list \<Rightarrow> 'a environment" where
  "sample_environment validate_item items =
     \<lparr> json_loads = (\<lambda>text. if text = ''payload'' then Some (JArr items) else None),
       validate_model = validate_item,
       http_get = responses [\<lparr>status_code = 200, body_text = ''payload''\<rparr>] \<rparr>"

text \<open>
  A loader environment in which every file opens and every statement is accepted.
\<close>

definition sample_loader_environment :: loader_environment where
  "sample_loader_environment =
     \<lparr> json_dumps = (\<lambda>v. ''[]''),
       now_isoformat = (\<lambda>n. ''2024-12-16T10:30:00''),
       open_ok = (\<lambda>path. True),
       execute_ok = (\<lambda>stmt. True) \<rparr>"

section \<open>Properties of the loops\<close>

lemma sub_accounts_loop_eq: "sub_accounts_loop acc subs = acc @ map flatten_account subs"
  by (induction subs arbitrary: acc) simp_all

lemma accounts_loop_present:
  "\<forall>a \<in> set accounts. gla_sub_accounts a \<noteq> None \<Longrightarrow>
   accounts_loop acc accounts =
     Inr (acc @ concat (map (\<lambda>a. flatten_account a # map flatten_account (the (gla_sub_accounts a))) accounts))"
  by (induction accounts arbitrary: acc) (auto simp: sub_accounts_loop_eq)

lemma accounts_loop_absent:
  "\<exists>a \<in> set accounts. gla_sub_accounts a = None \<Longrightarrow> accounts_loop acc accounts = Inl TypeError"
  by (induction accounts arbitrary: acc) (auto split: option.splits)

lemma lines_loop_eq: "lines_loop acc ls = acc @ map base_line ls"
  by (induction ls arbitrary: acc) simp_all

lemma transactions_loop_kept:
  "transactions_loop result S ts = result @ map transformed_transaction (kept S ts)"
  by (induction ts arbitrary: result S) simp_all

lemma kept_index:
  "kept S ts = map (\<lambda>i. ts ! i)
       (filter (\<lambda>i. glt_id (ts ! i) \<notin> S \<union> glt_id ` set (take i ts)) [0..<length ts])"
proof (induction ts arbitrary: S)
  case Nil
  show ?case by simp
next
  case (Cons t ts)
  have upt: "[0..<length (t # ts)] = 0 # map Suc [0..<length ts]"
    by (simp add: upt_conv_Cons map_Suc_upt del: upt_Suc)
  have tail: "map (\<lambda>i. (t # ts) ! i)
        (filter (\<lambda>i. glt_id ((t # ts) ! i) \<notin> S \<union> glt_id ` set (take i (t # ts)))
           (map Suc [0..<length ts]))
      = kept (insert (glt_id t) S) ts"
  proof -
    have p: "(\<lambda>i. glt_id (ts ! i) \<notin> S \<union> glt_id ` set (take (Suc i) (t # ts)))
        = (\<lambda>i. glt_id (ts ! i) \<notin> insert (glt_id t) S \<union> glt_id ` set (take i ts))"
      by auto
    show ?thesis
      by (simp only: filter_map comp_def map_map nth_Cons_Suc p Cons.IH [of "insert (glt_id t) S"])
  qed
  show ?case
  proof (cases "glt_id t \<in> S")
    case True
    then have same: "insert (glt_id t) S = S" by auto
    from True show ?thesis
      unfolding upt using tail by (simp add: same)
  next
    case False
    then show ?thesis
      unfolding upt using tail by simp
  qed
qed

lemma transform_first_occurrences:
  "transform_general_ledger_transactions ts = map transformed_transaction (first_occurrences ts)"
  by (simp add: transform_general_ledger_transactions_def transactions_loop_kept kept_index first_occurrences_def)


lemma sample_transaction_sel [simp]:
  "glt_id (sample_transaction i memo lines) = i"
  "j_memo (glt_journal (sample_transaction i memo lines)) = memo"
  "j_lines (glt_journal (sample_transaction i memo lines)) = lines"
  by (simp_all add: sample_transaction_def)

lemma sample_line_sel [simp]:
  "gla_id (jl_gl_account (sample_line account_id amount)) = account_id"
  "jl_amount (sample_line account_id amount) = amount"
  by (simp_all add: sample_line_def sample_account_def)

lemma sample_environment_sel [simp]:
  "json_loads (sample_environment v items) ''payload'' = Some (JArr items)"
  "validate_model (sample_environment v items) = v"
  by (simp_all add: sample_environment_def)

lemma has_line_for_sample [simp]:
  "has_line_for a (sample_json_transaction i accounts) = (a \<in> set accounts)"
  by (auto simp: has_line_for_def element_lines_def sample_json_transaction_def line_is_for_def
        line_account_id_def sample_json_line_def)

lemma well_formed_sample [simp]: "well_formed_element (sample_json_transaction i accounts)"
  by (simp add: well_formed_element_def sample_json_transaction_def list_all_iff
        well_formed_line_def sample_json_line_def)

lemma validate_sample [simp]:
  "sample_validate_transaction (sample_json_transaction i accounts) = Some (sample_transaction i ''memo'' [])"
  by (simp add: sample_validate_transaction_def sample_json_transaction_def)

section \<open>Transaction deduplication\<close>



section \<open>Journal flattening\<close>

text \<open>
  Claim C2.  For every transaction the loop processes (the \<open>i\<close>-th first occurrence
  \<open>t\<close>, which yields the \<open>i\<close>-th output record): the output's \<open>journal_memo\<close> is
  \<open>t.journal.memo\<close>; its \<open>lines\<close> has the length of \<open>t.journal.lines\<close>; line \<open>k\<close> carries
  \<open>general_ledger_account_id = t.journal.lines[k].gl_account.id\<close> and the unchanged
  \<open>amount\<close>, \<open>is_cash_posting\<close>, \<open>reference_number\<close>, \<open>memo\<close> and \<open>accounting_entity\<close> (the
  output line type has no field for the embedded account); and an empty \<open>journal.lines\<close>
  gives an empty \<open>lines\<close>.  The function is total, so no error is raised.
\<close>

theorem transform_transactions_journal:
  "length (transform_general_ledger_transactions ts) = length (first_occurrences ts) \<and>
   (\<forall>i < length (first_occurrences ts).
      let t = first_occurrences ts ! i;
          out = transform_general_ledger_transactions ts ! i;
          lines = j_lines (glt_journal t)
      in gltt_journal_memo out = j_memo (glt_journal t) \<and>
         length (gltt_lines out) = length lines \<and>
         (\<forall>k < length lines.
            jlt_general_ledger_account_id (gltt_lines out ! k) = gla_id (jl_gl_account (lines ! k)) \<and>
            jlt_amount (gltt_lines out ! k) = jl_amount (lines ! k) \<and>
            jlt_is_cash_posting (gltt_lines out ! k) = jl_is_cash_posting (lines ! k) \<and>
            jlt_reference_number (gltt_lines out ! k) = jl_reference_number (lines ! k) \<and>
            jlt_memo (gltt_lines out ! k) = jl_memo (lines ! k) \<and>
            jlt_accounting_entity (gltt_lines out ! k) = jl_accounting_entity (lines ! k)) \<and>
         (lines = [] \<longrightarrow> gltt_lines out = []))"
proof -
  have lines: "gltt_lines (transformed_transaction t) = map base_line (j_lines (glt_journal t))" for t
    by (simp add: transformed_transaction_def lines_loop_eq)
  have memo: "gltt_journal_memo (transformed_transaction t) = j_memo (glt_journal t)" for t
    by (simp add: transformed_transaction_def)
  show ?thesis
    by (simp add: transform_first_occurrences lines memo Let_def base_line_def)
qed

theorem transform_transactions_journal_witness:
  "gltt_journal_memo (transform_general_ledger_transactions
      [sample_transaction 1 ''rent'' [sample_line 3 60, sample_line 7 (-60)],
       sample_transaction 2 ''none'' []] ! 0) = ''rent''
   \<and> length (gltt_lines (transform_general_ledger_transactions
      [sample_transaction 1 ''rent'' [sample_line 3 60, sample_line 7 (-60)],
       sample_transaction 2 ''none'' []] ! 0)) = 2
   \<and> jlt_general_ledger_account_id (gltt_lines (transform_general_ledger_transactions
      [sample_transaction 1 ''rent'' [sample_line 3 60, sample_line 7 (-60)],
       sample_transaction 2 ''none'' []] ! 0) ! 1) = 7
   \<and> jlt_amount (gltt_lines (transform_general_ledger_transactions
      [sample_transaction 1 ''rent'' [sample_line 3 60, sample_line 7 (-60)],
       sample_transaction 2 ''none'' []] ! 0) ! 1) = - 60
   \<and> gltt_lines (transform_general_ledger_transactions
      [sample_transaction 1 ''rent'' [sample_line 3 60, sample_line 7 (-60)],
       sample_transaction 2 ''none'' []] ! 1) = []"
proof -
  let ?t0 = "sample_transaction 1 ''rent'' [sample_line 3 60, sample_line 7 (-60)]"
  let ?t1 = "sample_transaction 2 ''none'' []"
  have fo: "first_occurrences [?t0, ?t1] = [?t0, ?t1]"
    by (simp add: first_occurrences_def upt_rec)
  have i0: "0 < length (first_occurrences [?t0, ?t1])"
    and i1: "1 < length (first_occurrences [?t0, ?t1])"
    by (simp_all add: fo)
  have t0: "first_occurrences [?t0, ?t1] ! 0 = ?t0"
    and t1: "first_occurrences [?t0, ?t1] ! 1 = ?t1"
    by (simp_all add: fo)
  note each = transform_transactions_journal [of "[?t0, ?t1]", THEN conjunct2, rule_format]
  note c0 = each [OF i0, unfolded Let_def t0 sample_transaction_sel]
  note c1 = each [OF i1, unfolded Let_def t1 sample_transaction_sel]
  have k1: "1 < length [sample_line 3 60, sample_line 7 (-60)]"
    by simp
  note line1 = c0 [THEN conjunct2, THEN conjunct2, THEN conjunct1, rule_format, OF k1]
  from c0 line1 c1 show ?thesis
    by simp
qed

section \<open>Account flattening\<close>

text \<open>
  Claim C6 (the flattened list, in order, for every input list of accounts).  The code
  departs from it where a top-level account has \<open>sub_accounts = None\<close>: the field is
  \<open>Optional\<close>, JSON \<open>"SubAccounts": null\<close> validates to it, and the unguarded inner \<open>for\<close>
  then raises \<open>TypeError\<close>, so the call returns no list at all.
\<close>

theorem transform_accounts_none_raises:
  "transform_general_ledger_accounts [sample_account 1 None] = Inl TypeError"
  by (simp add: transform_general_ledger_accounts_def sample_account_def)

lemma transform_accounts_absent:
  "\<exists>a \<in> set accounts. gla_sub_accounts a = None \<Longrightarrow>
   transform_general_ledger_accounts accounts = Inl TypeError"
  by (simp add: transform_general_ledger_accounts_def accounts_loop_absent)

text \<open>
  Where every top-level account carries a list (possibly empty), the order is the one the
  claim describes: each account, then its direct sub-accounts in their order, then the next
  account; nothing below the first level is visited and nothing is deduplicated.
\<close>

lemma transform_accounts_order:
  "\<forall>a \<in> set accounts. gla_sub_accounts a \<noteq> None \<Longrightarrow>
   transform_general_ledger_accounts accounts =
     Inr (concat (map (\<lambda>a. flatten_account a # map flatten_account (the (gla_sub_accounts a)))
                    accounts))"
  using accounts_loop_present [of accounts "[]"]
  by (simp add: transform_general_ledger_accounts_def)

lemma transform_accounts_order_example:
  "transform_general_ledger_accounts
     [sample_account 1 (Some [sample_account 2 (Some [sample_account 9 (Some [])]), sample_account 3 None]),
      sample_account 2 (Some [])]
   = Inr [flatten_account (sample_account 1 None), flatten_account (sample_account 2 None),
          flatten_account (sample_account 3 None), flatten_account (sample_account 2 None)]"
  by (simp add: transform_general_ledger_accounts_def sample_account_def flatten_account_def)



section \<open>Retry and backoff\<close>

lemma api_loop_rate_limited:
  "current_retries + k \<le> maximum_retries \<Longrightarrow>
   \<forall>i<k. status_code (requests_get (calls trace + i)) = 429 \<Longrightarrow>
   api_loop requests_get delay current_retries trace =
     api_loop requests_get (delay * 2 ^ k) (current_retries + k)
       (trace\<lparr>sleeps := sleeps trace @ map (\<lambda>i. delay * 2 ^ i) [0..<k], calls := calls trace + k\<rparr>)"
proof (induction k arbitrary: delay current_retries trace)
  case 0
  show ?case by simp
next
  case (Suc k)
  from Suc.prems have first: "status_code (requests_get (calls trace)) = 429"
    by auto
  from Suc.prems have lt: "current_retries < maximum_retries"
    by simp
  let ?trace = "trace\<lparr>calls := calls trace + 1, sleeps := sleeps trace @ [delay]\<rparr>"
  have step: "api_loop requests_get delay current_retries trace =
      api_loop requests_get (delay * 2) (current_retries + 1) ?trace"
    by (subst api_loop.simps) (simp add: first lt Let_def)
  have rest: "\<forall>i<k. status_code (requests_get (calls ?trace + i)) = 429"
    using Suc.prems(2) by auto
  have bound: "current_retries + 1 + k \<le> maximum_retries"
    using Suc.prems(1) by simp
  have delays: "[delay] @ map (\<lambda>i. delay * 2 * 2 ^ i) [0..<k] = map (\<lambda>i. delay * 2 ^ i) [0..<Suc k]"
    by (simp add: upt_conv_Cons map_Suc_upt [symmetric] del: upt_Suc) 
  show ?case
    unfolding step Suc.IH [OF bound rest]
    using delays by (simp add: mult.assoc)
qed

lemma api_loop_exhausted:
  "api_loop requests_get delay maximum_retries trace = (Inl MaxRetriesExceeded, trace)"
  by (subst api_loop.simps) simp

lemma api_loop_answer:
  "current_retries < maximum_retries \<Longrightarrow> status_code (requests_get (calls trace)) \<noteq> 429 \<Longrightarrow>
   api_loop requests_get delay current_retries trace =
     ((if 400 \<le> status_code (requests_get (calls trace)) \<and> status_code (requests_get (calls trace)) < 600
       then Inl HTTPError else Inr (body_text (requests_get (calls trace)))),
      trace\<lparr>calls := calls trace + 1\<rparr>)"
  by (subst api_loop.simps) (simp add: Let_def raise_for_status_def)

lemma fetch_all_rate_limited:
  assumes "\<forall>i<5. status_code (requests_get i) = 429"
  shows "fetch_transactions_from_api requests_get account (Some start_date) (Some end_date) =
           (Inl MaxRetriesExceeded, \<lparr>sleeps = [2, 4, 8, 16, 32], calls = 5\<rparr>)"
proof -
  have "api_loop requests_get 2 0 \<lparr>sleeps = [], calls = 0\<rparr> =
        api_loop requests_get (2 * 2 ^ 5) (0 + 5)
          (\<lparr>sleeps = [], calls = 0\<rparr>\<lparr>sleeps := sleeps \<lparr>sleeps = [], calls = 0\<rparr> @ map (\<lambda>i. 2 * 2 ^ i) [0..<5],
             calls := calls \<lparr>sleeps = [], calls = 0\<rparr> + 5\<rparr>)"
    by (rule api_loop_rate_limited) (use assms in \<open>simp_all add: maximum_retries_def\<close>)
  also have "\<dots> = (Inl MaxRetriesExceeded, \<lparr>sleeps = map (\<lambda>i. 2 * 2 ^ i) [0..<5], calls = 5\<rparr>)"
    using api_loop_exhausted [of requests_get] by (simp add: maximum_retries_def)
  also have "map (\<lambda>i. 2 * 2 ^ i) [0..<5] = [2, 4, 8, 16, 32 :: int]"
    by (simp add: upt_rec)
  finally show ?thesis
    by (simp add: fetch_transactions_from_api_def)
qed

lemma fetch_answered:
  assumes k: "k < 5"
    and limited: "\<forall>i<k. status_code (requests_get i) = 429"
    and answer: "status_code (requests_get k) \<noteq> 429"
  shows "fetch_transactions_from_api requests_get account (Some start_date) (Some end_date) =
           ((if 400 \<le> status_code (requests_get k) \<and> status_code (requests_get k) < 600
             then Inl HTTPError else Inr (body_text (requests_get k))),
            \<lparr>sleeps = map (\<lambda>i. 2 * 2 ^ i) [0..<k], calls = k + 1\<rparr>)"
proof -
  have "api_loop requests_get 2 0 \<lparr>sleeps = [], calls = 0\<rparr> =
        api_loop requests_get (2 * 2 ^ k) (0 + k)
          (\<lparr>sleeps = [], calls = 0\<rparr>\<lparr>sleeps := sleeps \<lparr>sleeps = [], calls = 0\<rparr> @ map (\<lambda>i. 2 * 2 ^ i) [0..<k],
             calls := calls \<lparr>sleeps = [], calls = 0\<rparr> + k\<rparr>)"
    by (rule api_loop_rate_limited) (use k limited in \<open>simp_all add: maximum_retries_def\<close>)
  also have "\<dots> = api_loop requests_get (2 * 2 ^ k) k \<lparr>sleeps = map (\<lambda>i. 2 * 2 ^ i) [0..<k], calls = k\<rparr>"
    by simp
  also have "\<dots> = ((if 400 \<le> status_code (requests_get k) \<and> status_code (requests_get k) < 600
             then Inl HTTPError else Inr (body_text (requests_get k))),
            \<lparr>sleeps = map (\<lambda>i. 2 * 2 ^ i) [0..<k], calls = k + 1\<rparr>)"
    using api_loop_answer [of k requests_get "\<lparr>sleeps = map (\<lambda>i. 2 * 2 ^ i) [0..<k], calls = k\<rparr>" "2 * 2 ^ k"]
      k answer by (simp add: maximum_retries_def)
  finally show ?thesis
    by (simp add: fetch_transactions_from_api_def)
qed

lemma first_answer:
  assumes "\<not> (\<forall>i<n. P i)"
  shows "\<exists>k<n. (\<forall>i<k. P i) \<and> \<not> P (k::nat)"
proof -
  from assms have "\<exists>k. k < n \<and> \<not> P k" by auto
  then obtain k where k: "k < n \<and> \<not> P k" and least: "\<forall>m<k. \<not> (m < n \<and> \<not> P m)"
    using exists_least_iff [of "\<lambda>k. k < n \<and> \<not> P k"] by auto
  from k least have "\<forall>i<k. P i" by auto
  with k show ?thesis by auto
qed

text \<open>
  Claim C5.  With both dates given, for every sequence of responses: if the first five are
  all 429 the fetch fails with the max-retries exception after five calls and five sleeps
  of 2, 4, 8, 16 and 32 seconds; if the first non-429 response is the \<open>k\<close>-th (\<open>k < 5\<close>) the
  fetch ends at that call, after \<open>k\<close> sleeps of 2, 4, ... seconds, with \<open>HTTPError\<close> when its
  status is an error status and with its unmodified body otherwise; the max-retries failure
  happens exactly when the first five responses are all 429; and in every case there is one
  sleep per 429 response received.
\<close>

theorem fetch_retry_backoff:
  "let out = fetch_transactions_from_api requests_get account (Some start_date) (Some end_date) in
     ((\<forall>i<5. status_code (requests_get i) = 429) \<longrightarrow>
        out = (Inl MaxRetriesExceeded, \<lparr>sleeps = [2, 4, 8, 16, 32], calls = 5\<rparr>)) \<and>
     (\<forall>k<5. (\<forall>i<k. status_code (requests_get i) = 429) \<and> status_code (requests_get k) \<noteq> 429 \<longrightarrow>
        out = ((if 400 \<le> status_code (requests_get k) \<and> status_code (requests_get k) < 600
                then Inl HTTPError else Inr (body_text (requests_get k))),
               \<lparr>sleeps = map (\<lambda>i. 2 * 2 ^ i) [0..<k], calls = k + 1\<rparr>)) \<and>
     (fst out = Inl MaxRetriesExceeded \<longleftrightarrow> (\<forall>i<5. status_code (requests_get i) = 429)) \<and>
     length (sleeps (snd out)) =
       length (filter (\<lambda>i. status_code (requests_get i) = 429) [0..<calls (snd out)])"
proof -
  let ?out = "fetch_transactions_from_api requests_get account (Some start_date) (Some end_date)"
  let ?limited = "\<lambda>i. status_code (requests_get i) = 429"
  have exact: "fst ?out = Inl MaxRetriesExceeded \<longleftrightarrow> (\<forall>i<5. ?limited i)"
  proof
    assume failed: "fst ?out = Inl MaxRetriesExceeded"
    show "\<forall>i<5. ?limited i"
    proof (rule ccontr)
      assume "\<not> (\<forall>i<5. ?limited i)"
      then obtain k where "k < 5" "\<forall>i<k. ?limited i" "\<not> ?limited k"
        using first_answer [of 5 ?limited] by auto
      from fetch_answered [OF this, of account start_date end_date] failed
      show False by (simp split: if_splits)
    qed
  next
    assume "\<forall>i<5. ?limited i"
    from fetch_all_rate_limited [OF this, of account start_date end_date]
    show "fst ?out = Inl MaxRetriesExceeded" by simp
  qed
  have count: "length (sleeps (snd ?out)) = length (filter ?limited [0..<calls (snd ?out)])"
  proof (cases "\<forall>i<5. ?limited i")
    case True
    then have "filter ?limited [0..<5] = [0..<5]"
      by (intro filter_True) simp
    with fetch_all_rate_limited [OF True, of account start_date end_date]
    show ?thesis by simp
  next
    case False
    then obtain k where k: "k < 5" "\<forall>i<k. ?limited i" "\<not> ?limited k"
      using first_answer [of 5 ?limited] by auto
    from k(2) have "filter ?limited [0..<k] = [0..<k]"
      by (intro filter_True) simp
    with k(3) fetch_answered [OF k, of account start_date end_date]
    show ?thesis by simp
  qed
  show ?thesis
    unfolding Let_def
    using fetch_all_rate_limited [of requests_get account start_date end_date]
      fetch_answered [of _ requests_get account start_date end_date] exact count
    by blast
qed

theorem fetch_retry_backoff_witness:
  "fetch_transactions_from_api
      (responses [\<lparr>status_code = 429, body_text = ''''\<rparr>, \<lparr>status_code = 200, body_text = ''[]''\<rparr>])
      3 (Some (Date 2024 1 1)) (Some (Date 2024 12 31))
    = (Inr ''[]'', \<lparr>sleeps = [2], calls = 2\<rparr>)
   \<and> fetch_transactions_from_api (responses [\<lparr>status_code = 429, body_text = ''''\<rparr>])
      3 (Some (Date 2024 1 1)) (Some (Date 2024 12 31))
    = (Inl MaxRetriesExceeded, \<lparr>sleeps = [2, 4, 8, 16, 32], calls = 5\<rparr>)
   \<and> fetch_transactions_from_api
      (responses [\<lparr>status_code = 429, body_text = ''''\<rparr>, \<lparr>status_code = 429, body_text = ''''\<rparr>,
                  \<lparr>status_code = 503, body_text = ''busy''\<rparr>])
      3 (Some (Date 2024 1 1)) (Some (Date 2024 12 31))
    = (Inl HTTPError, \<lparr>sleeps = [2, 4], calls = 3\<rparr>)"
proof -
  let ?a = "responses [\<lparr>status_code = 429, body_text = ''''\<rparr>, \<lparr>status_code = 200, body_text = ''[]''\<rparr>]"
  let ?b = "responses [\<lparr>status_code = 429, body_text = ''''\<rparr>]"
  let ?c = "responses [\<lparr>status_code = 429, body_text = ''''\<rparr>, \<lparr>status_code = 429, body_text = ''''\<rparr>,
                  \<lparr>status_code = 503, body_text = ''busy''\<rparr>]"
  note a = fetch_retry_backoff [of ?a 3 "Date 2024 1 1" "Date 2024 12 31", unfolded Let_def,
      THEN conjunct2, THEN conjunct1, rule_format, of 1]
  note b = fetch_retry_backoff [of ?b 3 "Date 2024 1 1" "Date 2024 12 31", unfolded Let_def,
      THEN conjunct1, rule_format]
  note c = fetch_retry_backoff [of ?c 3 "Date 2024 1 1" "Date 2024 12 31", unfolded Let_def,
      THEN conjunct2, THEN conjunct1, rule_format, of 2]
  have "fetch_transactions_from_api ?a 3 (Some (Date 2024 1 1)) (Some (Date 2024 12 31))
      = (Inr ''[]'', \<lparr>sleeps = [2], calls = 2\<rparr>)"
    using a by (simp add: responses_def upt_rec)
  moreover have "fetch_transactions_from_api ?b 3 (Some (Date 2024 1 1)) (Some (Date 2024 12 31))
      = (Inl MaxRetriesExceeded, \<lparr>sleeps = [2, 4, 8, 16, 32], calls = 5\<rparr>)"
    using b by (simp add: responses_def)
  moreover have "fetch_transactions_from_api ?c 3 (Some (Date 2024 1 1)) (Some (Date 2024 12 31))
      = (Inl HTTPError, \<lparr>sleeps = [2, 4], calls = 3\<rparr>)"
    using c by (simp add: responses_def upt_rec less_Suc_eq numeral_2_eq_2)
  ultimately show ?thesis by simp
qed

section \<open>Search, validation and participation\<close>

lemma lines_search_well_formed:
  "list_all well_formed_line ls \<Longrightarrow>
   lines_search ls a = Inr (\<exists>line \<in> set ls. line_is_for a line)"
proof (induction ls)
  case Nil
  show ?case by simp
next
  case (Cons line ls)
  then have wf: "well_formed_line line" and rest: "list_all well_formed_line ls"
    by simp_all
  note IH = Cons.IH [OF rest]
  from wf show ?case
    by (auto simp: well_formed_line_def dict_get_def subscript_def line_is_for_def
          line_account_id_def IH split: json.splits option.splits)
qed

lemma search_loop_well_formed:
  "list_all well_formed_element ts \<Longrightarrow>
   search_loop result ts a = Inr (result @ filter (has_line_for a) ts)"
proof (induction ts arbitrary: result)
  case Nil
  show ?case by simp
next
  case (Cons t ts)
  then have wf: "well_formed_element t" and rest: "list_all well_formed_element ts"
    by simp_all
  note IH = Cons.IH [OF rest]
  from wf show ?case
    by (auto simp: well_formed_element_def dict_get_def iterate_def has_line_for_def
          element_lines_def IH lines_search_well_formed split: json.splits option.splits)
      blast+
qed

lemma validate_items_valid:
  "\<forall>item \<in> set items. validate_item item \<noteq> None \<Longrightarrow>
   validate_items validate_item items = Inr (map (\<lambda>item. the (validate_item item)) items)"
  by (induction items) auto

lemma validate_items_invalid:
  "\<exists>item \<in> set items. validate_item item = None \<Longrightarrow>
   validate_items validate_item items = Inl ValidationError"
proof (induction items)
  case Nil
  then show ?case by simp
next
  case (Cons item items)
  show ?case
  proof (cases "validate_item item")
    case None
    then show ?thesis by simp
  next
    case (Some model)
    with Cons.prems have "\<exists>item \<in> set items. validate_item item = None"
      by auto
    from Cons.IH [OF this] Some show ?thesis by simp
  qed
qed

lemma rows_loop_eq:
  "rows_loop rows a ts = rows @ map (\<lambda>t. \<lparr>gat_account_id = a, gat_transaction_id = glt_id t\<rparr>) ts"
  by (induction ts arbitrary: rows) simp_all


lemma get_transactions_from_json:
  assumes "a \<noteq> 0"
    and "json_loads env json_data = Some (JArr items)"
    and "list_all well_formed_element items"
  shows "get_general_ledger_transactions env (Some a) None None (Some json_data) =
           validate_items (validate_model env) (filter (has_line_for a) items)"
  using assms
  by (simp add: get_general_ledger_transactions_def fetch_transactions_from_json_def
        transactions_json_search_def iterate_def search_loop_well_formed validate_python_def)

lemma participation_loop_eq:
  assumes "json_loads env json_data = Some (JArr items)"
    and "list_all well_formed_element items"
  shows "0 \<notin> set ids \<Longrightarrow>
    \<forall>a \<in> set ids. \<forall>item \<in> set items. has_line_for a item \<longrightarrow> validate_model env item \<noteq> None \<Longrightarrow>
    participation_loop env json_data rows txs ids =
      Inr (rows @ concat (map (\<lambda>a. map (\<lambda>t. \<lparr>gat_account_id = a, gat_transaction_id = glt_id t\<rparr>)
                                      (matching env items a)) ids),
           txs @ concat (map (matching env items) ids))"
proof (induction ids arbitrary: rows txs)
  case Nil
  show ?case by simp
next
  case (Cons a ids)
  from Cons.prems have a: "a \<noteq> 0" and rest0: "0 \<notin> set ids"
    by auto
  from Cons.prems have valid: "\<forall>item \<in> set (filter (has_line_for a) items). validate_model env item \<noteq> None"
    and rest: "\<forall>a \<in> set ids. \<forall>item \<in> set items. has_line_for a item \<longrightarrow> validate_model env item \<noteq> None"
    by auto
  have got: "get_general_ledger_transactions env (Some a) None None (Some json_data) =
      Inr (matching env items a)"
    unfolding get_transactions_from_json [OF a assms] matching_def
    by (rule validate_items_valid [OF valid])
  show ?case
    by (simp add: got rows_loop_eq Cons.IH [OF rest0 rest])
qed



text \<open>
  Claim C3.  As stated, for every set of ids and every payload, the claim fails: the id 0
  is rejected with \<open>ValueError\<close> although it has zero matching transactions, and a payload
  element that has a line for a tracked account but does not validate aborts the mapping
  with \<open>ValidationError\<close> instead of yielding a row.
\<close>

theorem map_account_participation_counterexample:
  "map_account_participation (sample_environment sample_validate_transaction []) [0] ''payload''
     = Inl ValueError
   \<and> map_account_participation
       (sample_environment sample_validate_transaction [malformed_json_transaction 5]) [5] ''payload''
     = Inl ValidationError"
  by (simp add: map_account_participation_def get_general_ledger_transactions_def
        fetch_transactions_from_json_def transactions_json_search_def iterate_def
        malformed_json_transaction_def sample_json_line_def dict_get_def subscript_def
        validate_python_def sample_validate_transaction_def)

text \<open>
  Claim C3, amended.  For ids without 0 (in any iteration order) and a payload that parses
  to an array of well-formed elements whose elements with a line for a tracked account
  validate, the mapping returns, account by account in iteration order, one row
  \<open>{account_id, transaction_id}\<close> per payload element that has a line for that account, and
  appends the same transactions to the accumulated list; an account with no such element
  contributes nothing to either list; a transaction with lines for two tracked accounts
  appears once for each.
\<close>

theorem map_account_participation_rows:
  assumes "0 \<notin> set ids"
    and "json_loads env json_data = Some (JArr items)"
    and "\<forall>item \<in> set items. well_formed_element item"
    and "\<forall>a \<in> set ids. \<forall>item \<in> set items. has_line_for a item \<longrightarrow> validate_model env item \<noteq> None"
  shows "map_account_participation env ids json_data =
    Inr (concat (map (\<lambda>a. map (\<lambda>item. \<lparr>gat_account_id = a,
                                         gat_transaction_id = glt_id (the (validate_model env item))\<rparr>)
                               (filter (has_line_for a) items)) ids),
         concat (map (\<lambda>a. map (\<lambda>item. the (validate_model env item))
                               (filter (has_line_for a) items)) ids))"
proof -
  from assms(3) have wf: "list_all well_formed_element items"
    by (simp add: list_all_iff)
  have "map_account_participation env ids json_data =
      Inr (concat (map (\<lambda>a. map (\<lambda>t. \<lparr>gat_account_id = a, gat_transaction_id = glt_id t\<rparr>)
                                      (matching env items a)) ids),
           concat (map (matching env items) ids))"
    using participation_loop_eq [OF assms(2) wf assms(1) assms(4), of "[]" "[]"]
    by (simp add: map_account_participation_def)
  moreover have "matching env items = (\<lambda>a. map (\<lambda>item. the (validate_model env item))
                               (filter (has_line_for a) items))"
    by (rule ext) (simp add: matching_def)
  ultimately show ?thesis
    by (simp add: comp_def)
qed

theorem map_account_participation_rows_witness:
  "map_account_participation
     (sample_environment sample_validate_transaction
        [sample_json_transaction 1001 [101, 102], sample_json_transaction 1002 [101]])
     [101, 102, 103] ''payload''
   = Inr ([\<lparr>gat_account_id = 101, gat_transaction_id = 1001\<rparr>,
           \<lparr>gat_account_id = 101, gat_transaction_id = 1002\<rparr>,
           \<lparr>gat_account_id = 102, gat_transaction_id = 1001\<rparr>],
          [sample_transaction 1001 ''memo'' [], sample_transaction 1002 ''memo'' [],
           sample_transaction 1001 ''memo'' []])"
proof -
  let ?items = "[sample_json_transaction 1001 [101, 102], sample_json_transaction 1002 [101]]"
  let ?env = "sample_environment sample_validate_transaction ?items"
  have ids: "0 \<notin> set [101, 102, 103 :: int]"
    by simp
  have loads: "json_loads ?env ''payload'' = Some (JArr ?items)"
    by simp
  have shape: "\<forall>item \<in> set ?items. well_formed_element item"
    by simp
  have valid: "\<forall>a \<in> set [101, 102, 103 :: int]. \<forall>item \<in> set ?items.
      has_line_for a item \<longrightarrow> validate_model ?env item \<noteq> None"
    by simp
  from map_account_participation_rows [OF ids loads shape valid]
  show ?thesis by simp
qed



section \<open>Validation\<close>

text \<open>
  Claim C8.  Validation is all-or-nothing: if any element of the array given to
  \<open>get_general_ledger_accounts\<close> is rejected, the call fails with \<open>ValidationError\<close>; a call
  that returns, returns one record for every element of the array; and in
  \<open>get_general_ledger_transactions\<close> the collection handed to the validation step (the
  elements selected for the account) is treated the same way.
\<close>

theorem validation_all_or_nothing:
  "(json_loads env data = Some (JArr items) \<and> (\<exists>item \<in> set items. validate_model env item = None)
      \<longrightarrow> get_general_ledger_accounts env (Some data) = Inl ValidationError) \<and>
   (\<forall>accounts. get_general_ledger_accounts env (Some data) = Inr accounts \<longrightarrow>
      (\<exists>items. json_loads env data = Some (JArr items) \<and>
               (\<forall>item \<in> set items. validate_model env item \<noteq> None) \<and>
               accounts = map (\<lambda>item. the (validate_model env item)) items)) \<and>
   (account \<noteq> 0 \<and> fetch_transactions_from_json tenv tdata account = Inr (JArr matched) \<and>
    (\<exists>item \<in> set matched. validate_model tenv item = None)
      \<longrightarrow> get_general_ledger_transactions tenv (Some account) start_date end_date (Some tdata)
            = Inl ValidationError)"
proof (intro conjI impI allI)
  assume "json_loads env data = Some (JArr items) \<and> (\<exists>item \<in> set items. validate_model env item = None)"
  then show "get_general_ledger_accounts env (Some data) = Inl ValidationError"
    by (simp add: get_general_ledger_accounts_def validate_json_def validate_python_def
          validate_items_invalid)
next
  fix accounts
  assume ok: "get_general_ledger_accounts env (Some data) = Inr accounts"
  then obtain its where loads: "json_loads env data = Some (JArr its)"
    and items: "validate_items (validate_model env) its = Inr accounts"
    by (auto simp: get_general_ledger_accounts_def validate_json_def validate_python_def
          split: option.splits json.splits)
  have all: "\<forall>item \<in> set its. validate_model env item \<noteq> None"
  proof (rule ccontr)
    assume "\<not> (\<forall>item \<in> set its. validate_model env item \<noteq> None)"
    then have "\<exists>item \<in> set its. validate_model env item = None" by simp
    from validate_items_invalid [OF this] items show False by simp
  qed
  from validate_items_valid [OF all] items
  have "accounts = map (\<lambda>item. the (validate_model env item)) its" by simp
  with loads all
  show "\<exists>items. json_loads env data = Some (JArr items) \<and>
               (\<forall>item \<in> set items. validate_model env item \<noteq> None) \<and>
               accounts = map (\<lambda>item. the (validate_model env item)) items"
    by blast
next
  assume "account \<noteq> 0 \<and> fetch_transactions_from_json tenv tdata account = Inr (JArr matched) \<and>
    (\<exists>item \<in> set matched. validate_model tenv item = None)"
  then show "get_general_ledger_transactions tenv (Some account) start_date end_date (Some tdata)
            = Inl ValidationError"
    by (simp add: get_general_ledger_transactions_def validate_python_def validate_items_invalid)
qed

theorem validation_all_or_nothing_witness:
  "get_general_ledger_accounts
     (sample_environment sample_validate_account
        [JObj [(''Id'', JInt 1), (''Name'', JStr ''Rental Income'')], JObj [(''Name'', JStr ''No id'')]])
     (Some ''payload'') = Inl ValidationError
   \<and> get_general_ledger_transactions
       (sample_environment sample_validate_transaction
          [sample_json_transaction 1001 [3], malformed_json_transaction 3])
       (Some 3) None None (Some ''payload'') = Inl ValidationError"
proof -
  let ?items = "[JObj [(''Id'', JInt 1), (''Name'', JStr ''Rental Income'')], JObj [(''Name'', JStr ''No id'')]]"
  let ?env = "sample_environment sample_validate_account ?items"
  let ?titems = "[sample_json_transaction 1001 [3], malformed_json_transaction 3]"
  let ?tenv = "sample_environment sample_validate_transaction ?titems"
  have a: "json_loads ?env ''payload'' = Some (JArr ?items)
      \<and> (\<exists>item \<in> set ?items. validate_model ?env item = None)"
    by (simp add: sample_validate_account_def)
  have search: "fetch_transactions_from_json ?tenv ''payload'' 3 = Inr (JArr ?titems)"
    by (simp add: fetch_transactions_from_json_def transactions_json_search_def iterate_def
        malformed_json_transaction_def sample_json_transaction_def sample_json_line_def
        dict_get_def subscript_def)
  have t: "(3::int) \<noteq> 0 \<and> fetch_transactions_from_json ?tenv ''payload'' 3 = Inr (JArr ?titems)
      \<and> (\<exists>item \<in> set ?titems. validate_model ?tenv item = None)"
    using search by (simp add: sample_validate_transaction_def malformed_json_transaction_def)
  note all = validation_all_or_nothing [of ?env "''payload''" ?items 3 ?tenv "''payload''" ?titems None None]
  from all [THEN conjunct1, THEN mp, OF a]
    all [THEN conjunct2, THEN conjunct2, THEN mp, OF t]
  show ?thesis by simp
qed

section \<open>Stage and merge\<close>

lemma str_join_from_eq: "str_join_from sep acc xs = acc @ concat (map (\<lambda>x. sep @ x) xs)"
  by (induction xs arbitrary: acc) simp_all

lemma str_join_and: "str_join '' AND '' xs = conjunction xs"
proof (induction xs rule: conjunction.induct)
  case 1
  show ?case by (simp add: str_join_def)
next
  case (2 clause)
  show ?case by (simp add: str_join_def)
next
  case (3 clause x rest)
  then show ?case by (simp add: str_join_def str_join_from_eq)
qed

lemma str_join_comma: "str_join '', '' xs = comma_list xs"
proof (induction xs rule: comma_list.induct)
  case 1
  show ?case by (simp add: str_join_def)
next
  case (2 x)
  show ?case by (simp add: str_join_def)
next
  case (3 x y rest)
  then show ?case by (simp add: str_join_def str_join_from_eq)
qed

text \<open>
  Claim C4.  The match condition is the \<open>AND\<close>-conjunction of \<open>target.c = source.c\<close> over the
  key columns (\<open>target.id = source.id\<close> for \<open>["id"]\<close>, both equalities for
  \<open>["account_id", "transaction_id"]\<close>); the statement text is that of a merge whose source is
  the staging table filtered by \<open>run_id = %s\<close> and whose only clause is
  \<open>WHEN NOT MATCHED THEN INSERT\<close>; and that one statement is executed with the supplied run
  id as its only bound parameter.
\<close>

theorem merge_insert_only:
  "id_matching [''id''] = ''target.id = source.id'' \<and>
   id_matching [''account_id'', ''transaction_id'']
     = ''target.account_id = source.account_id AND target.transaction_id = source.transaction_id'' \<and>
   id_matching id_matching_columns
     = conjunction (map (\<lambda>column. ''target.'' @ column @ '' = source.'' @ column) id_matching_columns) \<and>
   merge_query staging_table target_table columns id_matching_columns
     = render_merge \<lparr> merge_target = target_table, merge_source_table = staging_table,
                      merge_source_filter = ''run_id = %s'', merge_keys = id_matching_columns,
                      merge_clauses = [WhenNotMatchedInsert columns] \<rparr> \<and>
   merge_staging_table_into_target_table env staging_table target_table columns run_id
       id_matching_columns
     = (if execute_ok env (merge_query staging_table target_table columns id_matching_columns, [run_id])
        then Inr [(merge_query staging_table target_table columns id_matching_columns, [run_id])]
        else Inl SnowflakeError)"
  by (simp add: id_matching_def str_join_and str_join_comma merge_query_def render_merge_def
        merge_staging_table_into_target_table_def)

theorem merge_insert_only_witness:
  "merge_staging_table_into_target_table sample_loader_environment
      ''general_ledger_staging.account_transactions'' ''general_ledger.account_transactions''
      [''account_id'', ''transaction_id''] ''run-1'' [''account_id'', ''transaction_id'']
   = Inr [(''MERGE INTO general_ledger.account_transactions AS target USING (SELECT * FROM general_ledger_staging.account_transactions WHERE run_id = %s) AS source ON target.account_id = source.account_id AND target.transaction_id = source.transaction_id WHEN NOT MATCHED THEN INSERT (account_id, transaction_id) VALUES (account_id, transaction_id)'',
           [''run-1''])]"
  using merge_insert_only [of "[''account_id'', ''transaction_id'']"
      "''general_ledger_staging.account_transactions''" "''general_ledger.account_transactions''"
      "[''account_id'', ''transaction_id'']" sample_loader_environment "''run-1''"]
  by (simp add: render_merge_def sample_loader_environment_def)

lemma export_empty:
  "export_data_to_csv env [] file_name run_id =
     Inl (if open_ok env (''/tmp/'' @ file_name) then IndexError else OSError)"
  by (simp add: export_data_to_csv_def)

lemma load_accounts_empty:
  "load_general_ledger_accounts_into_snowflake env [] run_id =
     Inl (if open_ok env (''/tmp/general_ledger_accounts_'' @ run_id @ ''.csv'')
          then IndexError else OSError)"
  by (simp add: load_general_ledger_accounts_into_snowflake_def export_empty Let_def)

lemma load_transactions_empty:
  "load_general_ledger_transactions_into_snowflake env [] run_id =
     Inl (if open_ok env (''/tmp/general_ledger_transactions_'' @ run_id @ ''.csv'')
          then IndexError else OSError)"
  by (simp add: load_general_ledger_transactions_into_snowflake_def export_empty Let_def)

lemma load_account_transactions_empty:
  "load_general_ledger_account_transactions_into_snowflake env [] run_id =
     Inl (if open_ok env (''/tmp/general_ledger_account_transactions_'' @ run_id @ ''.csv'')
          then IndexError else OSError)"
  by (simp add: load_general_ledger_account_transactions_into_snowflake_def export_empty Let_def)

text \<open>
  Claim C9.  On the empty list \<open>export_data_to_csv\<close> raises (\<open>IndexError\<close> once the file is
  open), and so does each of the three loaders, whose first step it is: an empty batch is
  never loaded silently.
\<close>

theorem load_empty_batch_fails:
  "(\<exists>e. export_data_to_csv env [] file_name run_id = Inl e) \<and>
   (open_ok env (''/tmp/'' @ file_name) \<longrightarrow> export_data_to_csv env [] file_name run_id = Inl IndexError) \<and>
   (\<exists>e. load_general_ledger_accounts_into_snowflake env [] run_id = Inl e) \<and>
   (\<exists>e. load_general_ledger_transactions_into_snowflake env [] run_id = Inl e) \<and>
   (\<exists>e. load_general_ledger_account_transactions_into_snowflake env [] run_id = Inl e) \<and>
   (open_ok env (''/tmp/general_ledger_accounts_'' @ run_id @ ''.csv'') \<longrightarrow>
      load_general_ledger_accounts_into_snowflake env [] run_id = Inl IndexError) \<and>
   (open_ok env (''/tmp/general_ledger_transactions_'' @ run_id @ ''.csv'') \<longrightarrow>
      load_general_ledger_transactions_into_snowflake env [] run_id = Inl IndexError) \<and>
   (open_ok env (''/tmp/general_ledger_account_transactions_'' @ run_id @ ''.csv'') \<longrightarrow>
      load_general_ledger_account_transactions_into_snowflake env [] run_id = Inl IndexError)"
  by (simp add: export_empty load_accounts_empty load_transactions_empty
        load_account_transactions_empty)

theorem load_empty_batch_fails_witness:
  "open_ok sample_loader_environment (''/tmp/general_ledger_accounts_'' @ ''run-1'' @ ''.csv'')
   \<and> export_data_to_csv sample_loader_environment [] ''accounts.csv'' ''run-1'' = Inl IndexError
   \<and> load_general_ledger_accounts_into_snowflake sample_loader_environment [] ''run-1'' = Inl IndexError
   \<and> load_general_ledger_transactions_into_snowflake sample_loader_environment [] ''run-1'' = Inl IndexError
   \<and> load_general_ledger_account_transactions_into_snowflake sample_loader_environment [] ''run-1''
       = Inl IndexError"
  using load_empty_batch_fails [of sample_loader_environment "''accounts.csv''" "''run-1''"]
  by (simp add: sample_loader_environment_def)

text \<open>A batch of one participation row, for comparison: the file and the four statements.\<close>

lemma load_one_row_example:
  "load_general_ledger_account_transactions_into_snowflake sample_loader_environment
     [\<lparr>gat_account_id = 101, gat_transaction_id = 1001\<rparr>] ''run-1''
   = Inr (\<lparr>csv_path = ''/tmp/general_ledger_account_transactions_run-1.csv'',
           csv_header = [''account_id'', ''transaction_id'', ''run_id'', ''inserted_at''],
           csv_rows = [[Json (JInt 101), Json (JInt 1001), Json (JStr ''run-1''),
                        Json (JStr ''2024-12-16T10:30:00'')]]\<rparr>,
          [(''USE SCHEMA GENERAL_LEDGER_STAGING'', []),
           (''PUT file:///tmp/general_ledger_account_transactions_run-1.csv @%account_transactions OVERWRITE = TRUE'', []),
           (''copy into account_transactions from @%account_transactions/general_ledger_account_transactions_run-1.csv.gz file_format = (type = csv field_optionally_enclosed_by = ''
              @ [CHR 0x27, CHR 0x22, CHR 0x27] @ '' skip_header = 1 escape=''
              @ [CHR 0x27, CHR 0x5C, CHR 0x5C, CHR 0x27] @ '') on_error = ''
              @ [CHR 0x27] @ ''abort_statement'' @ [CHR 0x27], []),
           (''MERGE INTO general_ledger.account_transactions AS target USING (SELECT * FROM general_ledger_staging.account_transactions WHERE run_id = %s) AS source ON target.account_id = source.account_id AND target.transaction_id = source.transaction_id WHEN NOT MATCHED THEN INSERT (account_id, transaction_id) VALUES (account_id, transaction_id)'',
            [''run-1''])])"
  by (simp add: load_general_ledger_account_transactions_into_snowflake_def export_data_to_csv_def
        model_dump_account_transactions_def preprocess_row_def dict_set_def writerow_def
        stage_file_in_snowflake_def merge_staging_table_into_target_table_def merge_query_def
        id_matching_def str_join_def sample_loader_environment_def Let_def)

end
